theory Spec2Isabelle
  imports Main
begin

section \<open>JavaScript values\<close>

text \<open>
  The values that \<^verbatim>\<open>lib/operator.js\<close> receives and builds. An object is the list of its
  own enumerable properties in enumeration order (\<^verbatim>\<open>for ... in\<close>, \<^verbatim>\<open>Object.keys\<close>), with
  distinct names, none of them \<^verbatim>\<open>__proto__\<close>; a number is an integer, and \<open>Num n\<close> stands
  for a JavaScript number only for \<open>n\<close> below \<^verbatim>\<open>1e21\<close> in size, where \<^verbatim>\<open>String(n)\<close> is its
  decimal notation; a string is a list of ASCII characters. Dates, buffers, functions
  and objects with a \<^verbatim>\<open>toSqlString\<close> method are not represented.
\<close>

datatype jsval =
    Undefined
  | Null
  | Bool bool
  | Num int
  | Str string
  | Arr "jsval list"
  | Obj "(string \<times> jsval) list"

text \<open>What the code throws: \<^verbatim>\<open>new Error(message)\<close> of \<^verbatim>\<open>operator.js\<close> itself, a
  \<^verbatim>\<open>TypeError\<close> of the JavaScript runtime (a property read on \<^verbatim>\<open>undefined\<close>, a call of
  something that is not a function, an iteration over something not iterable), or the
  error object with which the execution delegate rejected.\<close>

record errobj =
  message :: string
  stack :: string

datatype thrown =
    Error string
  | TypeError
  | Rejected errobj

fun truthy :: "jsval \<Rightarrow> bool" where
  "truthy Undefined = False"
| "truthy Null = False"
| "truthy (Bool b) = b"
| "truthy (Num n) = (n \<noteq> 0)"
| "truthy (Str s) = (s \<noteq> [])"
| "truthy (Arr vs) = True"
| "truthy (Obj kvs) = True"

fun isArray :: "jsval \<Rightarrow> bool" where
  "isArray (Arr vs) = True"
| "isArray v = False"

fun isString :: "jsval \<Rightarrow> bool" where
  "isString (Str s) = True"
| "isString v = False"

fun isNumber :: "jsval \<Rightarrow> bool" where
  "isNumber (Num n) = True"
| "isNumber v = False"

text \<open>\<^verbatim>\<open>Array.prototype.join\<close> on an array of strings.\<close>

fun join :: "string \<Rightarrow> string list \<Rightarrow> string" where
  "join sep [] = []"
| "join sep [x] = x"
| "join sep (x # y # ys) = x @ sep @ join sep (y # ys)"

text \<open>Decimal notation of an integer, as \<^verbatim>\<open>String(n)\<close> and \<^verbatim>\<open>n + ''\<close> give it.\<close>

definition digit_char :: "nat \<Rightarrow> char" where
  "digit_char d = ''0123456789'' ! d"

function digits :: "nat \<Rightarrow> string" where
  "digits n = (if n < 10 then [digit_char n] else digits (n div 10) @ [digit_char (n mod 10)])"
  by pat_completeness auto
termination
  by (relation "measure (\<lambda>n. n)") auto

declare digits.simps [simp del]

definition show_int :: "int \<Rightarrow> string" where
  "show_int i = (if i < 0 then CHR ''-'' # digits (nat (- i)) else digits (nat i))"

text \<open>\<^verbatim>\<open>String(v)\<close>. An array is its elements joined by a comma, \<^verbatim>\<open>null\<close> and
  \<^verbatim>\<open>undefined\<close> elements giving the empty string.\<close>

fun to_String :: "jsval \<Rightarrow> string"
  and element_Strings :: "jsval list \<Rightarrow> string list" where
  "to_String Undefined = ''undefined''"
| "to_String Null = ''null''"
| "to_String (Bool b) = (if b then ''true'' else ''false'')"
| "to_String (Num n) = show_int n"
| "to_String (Str s) = s"
| "to_String (Arr vs) = join '','' (element_Strings vs)"
| "to_String (Obj kvs) = ''[object Object]''"
| "element_Strings [] = []"
| "element_Strings (Undefined # vs) = [] # element_Strings vs"
| "element_Strings (Null # vs) = [] # element_Strings vs"
| "element_Strings (v # vs) = to_String v # element_Strings vs"

text \<open>\<^verbatim>\<open>String.prototype.toUpperCase\<close> on ASCII text.\<close>

definition upper_char :: "char \<Rightarrow> char" where
  "upper_char c =
     (let n = (of_char c :: nat)
      in if 97 \<le> n \<and> n \<le> 122 then char_of (n - 32) else c)"

definition toUpperCase :: "string \<Rightarrow> string" where
  "toUpperCase s = map upper_char s"

text \<open>Property access \<^verbatim>\<open>o[k]\<close> on an object given by its own properties: the value of
  the property, \<^verbatim>\<open>undefined\<close> when there is none.\<close>

definition hasOwn :: "(string \<times> jsval) list \<Rightarrow> string \<Rightarrow> bool" where
  "hasOwn kvs k = (map_of kvs k \<noteq> None)"

definition getProp :: "(string \<times> jsval) list \<Rightarrow> string \<Rightarrow> jsval" where
  "getProp kvs k = (case map_of kvs k of None \<Rightarrow> Undefined | Some v \<Rightarrow> v)"

section \<open>The escaping library\<close>

text \<open>
  \<^verbatim>\<open>operator.js\<close> requires \<^verbatim>\<open>./sqlstring\<close>, which is not among the sources. Its three
  functions \<^verbatim>\<open>SqlString.escape\<close>, \<^verbatim>\<open>SqlString.escapeId\<close> and \<^verbatim>\<open>SqlString.format\<close> are
  modelled from the specification (sections 4.1 and 4.2) on the values above, for
  MySQL's quoting convention, which the specification's examples use. The time zone
  argument only matters for dates and is left out.
\<close>

text \<open>Modelled from the spec: the string case of \<^verbatim>\<open>escapeValue\<close>, missing with
  \<^verbatim>\<open>./sqlstring\<close>: "single-quoted with escaping of control characters, quotes,
  backslash, and null byte". This is the escape of one character.\<close>

definition escape_char :: "char \<Rightarrow> string" where
  "escape_char c =
     (if c = CHR 0x00 then [CHR 0x5C, CHR ''0'']
      else if c = CHR 0x08 then [CHR 0x5C, CHR ''b'']
      else if c = CHR 0x09 then [CHR 0x5C, CHR ''t'']
      else if c = CHR 0x0A then [CHR 0x5C, CHR ''n'']
      else if c = CHR 0x0D then [CHR 0x5C, CHR ''r'']
      else if c = CHR 0x1A then [CHR 0x5C, CHR ''Z'']
      else if c = CHR 0x22 then [CHR 0x5C, CHR 0x22]
      else if c = CHR 0x27 then [CHR 0x5C, CHR 0x27]
      else if c = CHR 0x5C then [CHR 0x5C, CHR 0x5C]
      else [c])"

text \<open>Modelled from the spec: the string case of \<^verbatim>\<open>escapeValue\<close>, missing with
  \<^verbatim>\<open>./sqlstring\<close>: the escaped characters between single quotes.\<close>

definition escapeString :: "string \<Rightarrow> string" where
  "escapeString s = [CHR 0x27] @ concat (map escape_char s) @ [CHR 0x27]"

text \<open>Modelled from the spec: the part of \<^verbatim>\<open>escapeIdentifier\<close>, missing with
  \<^verbatim>\<open>./sqlstring\<close>, that "always doubles any embedded quote character".\<close>

definition double_backticks :: "string \<Rightarrow> string" where
  "double_backticks s = concat (map (\<lambda>c. if c = CHR 0x60 then [CHR 0x60, CHR 0x60] else [c]) s)"

text \<open>Modelled from the spec: the part of \<^verbatim>\<open>escapeIdentifier\<close>, missing with
  \<^verbatim>\<open>./sqlstring\<close>, that quotes the parts of a qualified name: a dot ends one quoted name
  and begins the next.\<close>

definition split_qualified :: "string \<Rightarrow> string" where
  "split_qualified s =
     concat (map (\<lambda>c. if c = CHR ''.'' then [CHR 0x60, CHR ''.'', CHR 0x60] else [c]) s)"

text \<open>Modelled from the spec: \<^verbatim>\<open>escapeIdentifier\<close>, that is \<^verbatim>\<open>SqlString.escapeId\<close>, missing
  with \<^verbatim>\<open>./sqlstring\<close>: the name between backticks, every embedded backtick doubled, a
  qualified name split at its dots unless \<^verbatim>\<open>forbidQualified\<close> is set; an array of names
  gives their comma-separated list.\<close>

fun SqlString_escapeId :: "jsval \<Rightarrow> bool \<Rightarrow> string"
  and SqlString_escapeId_items :: "jsval list \<Rightarrow> bool \<Rightarrow> string list" where
  "SqlString_escapeId (Arr vs) forbidQualified =
     join '', '' (SqlString_escapeId_items vs forbidQualified)"
| "SqlString_escapeId v forbidQualified =
     (if forbidQualified then [CHR 0x60] @ double_backticks (to_String v) @ [CHR 0x60]
      else [CHR 0x60] @ split_qualified (double_backticks (to_String v)) @ [CHR 0x60])"
| "SqlString_escapeId_items [] forbidQualified = []"
| "SqlString_escapeId_items (v # vs) forbidQualified =
     SqlString_escapeId v forbidQualified # SqlString_escapeId_items vs forbidQualified"

text \<open>Modelled from the spec: \<^verbatim>\<open>escapeValue\<close>, that is \<^verbatim>\<open>SqlString.escape\<close>, missing with
  \<^verbatim>\<open>./sqlstring\<close>, by the shape of the value: \<^verbatim>\<open>NULL\<close>, a boolean or numeric literal, a
  quoted string, for a top-level array the comma-joined list of its escaped elements
  with each nested array a parenthesised tuple, and for a plain object the comma-joined
  \<^verbatim>\<open>column = value\<close> list, or the opaque string \<^verbatim>\<open>'[object Object]'\<close> when
  \<^verbatim>\<open>stringifyObjects\<close> is set (as it is for the elements of an array and the values of
  an object).\<close>

fun SqlString_escape :: "jsval \<Rightarrow> bool \<Rightarrow> string"
  and arrayToList :: "jsval list \<Rightarrow> string list"
  and objectToValues :: "(string \<times> jsval) list \<Rightarrow> string list" where
  "SqlString_escape Undefined stringifyObjects = ''NULL''"
| "SqlString_escape Null stringifyObjects = ''NULL''"
| "SqlString_escape (Bool b) stringifyObjects = (if b then ''true'' else ''false'')"
| "SqlString_escape (Num n) stringifyObjects = show_int n"
| "SqlString_escape (Str s) stringifyObjects = escapeString s"
| "SqlString_escape (Arr vs) stringifyObjects = join '', '' (arrayToList vs)"
| "SqlString_escape (Obj kvs) stringifyObjects =
     (if stringifyObjects then escapeString ''[object Object]''
      else join '', '' (objectToValues kvs))"
| "arrayToList [] = []"
| "arrayToList (Arr a # vs) = (''('' @ join '', '' (arrayToList a) @ '')'') # arrayToList vs"
| "arrayToList (v # vs) = SqlString_escape v True # arrayToList vs"
| "objectToValues [] = []"
| "objectToValues ((k, v) # kvs) =
     (SqlString_escapeId (Str k) False @ '' = '' @ SqlString_escape v True) # objectToValues kvs"

text \<open>Modelled from the spec: the scan of positional substitution, missing with
  \<^verbatim>\<open>./sqlstring\<close>. The template is scanned left to right; \<^verbatim>\<open>??\<close> takes the next value as
  an identifier, a single \<^verbatim>\<open>?\<close> takes it as a literal; once the values are used up the
  rest of the template stays as it is, and values left over are ignored. The
  specification is silent on a run of three or more question marks: here it is no
  placeholder and stays, which no template of \<^verbatim>\<open>operator.js\<close> itself contains.\<close>

function fill :: "string \<Rightarrow> jsval list \<Rightarrow> bool \<Rightarrow> string" where
  "fill [] vs stringifyObjects = []"
| "fill (c # s) [] stringifyObjects = c # s"
| "fill (c # s) (v # vs) stringifyObjects =
     (if c \<noteq> CHR ''?'' then c # fill s (v # vs) stringifyObjects
      else
        let run = takeWhile (\<lambda>d. d = CHR ''?'') (c # s);
            rest = dropWhile (\<lambda>d. d = CHR ''?'') (c # s)
        in if length run = 1
           then SqlString_escape v stringifyObjects @ fill rest vs stringifyObjects
           else if length run = 2
           then SqlString_escapeId v False @ fill rest vs stringifyObjects
           else run @ fill rest (v # vs) stringifyObjects)"
  by pat_completeness auto
termination
  by (relation "measure (\<lambda>(s, vs, b). length s)")
     (auto simp: less_Suc_eq_le length_dropWhile_le)

text \<open>Modelled from the spec: positional mode, that is \<^verbatim>\<open>SqlString.format\<close>, missing with
  \<^verbatim>\<open>./sqlstring\<close>. A value that is no array counts as the array of that one value, and
  without values the template is returned.\<close>

definition SqlString_format :: "string \<Rightarrow> jsval \<Rightarrow> bool \<Rightarrow> string" where
  "SqlString_format sql values stringifyObjects =
     (case values of
        Undefined \<Rightarrow> sql
      | Null \<Rightarrow> sql
      | Arr vs \<Rightarrow> fill sql vs stringifyObjects
      | v \<Rightarrow> fill sql [v] stringifyObjects)"

section \<open>Reading JavaScript values\<close>

text \<open>The enumerable properties of a value with their values, in the order of
  \<^verbatim>\<open>for (const key in v)\<close> and \<^verbatim>\<open>Object.keys(v)\<close>: the properties of an object, the
  indices of an array or of a string, nothing for the other values.\<close>

fun enumerate_props :: "jsval \<Rightarrow> (string \<times> jsval) list" where
  "enumerate_props (Obj kvs) = kvs"
| "enumerate_props (Arr vs) = zip (map digits [0 ..< length vs]) vs"
| "enumerate_props (Str s) = zip (map digits [0 ..< length s]) (map (\<lambda>c. Str [c]) s)"
| "enumerate_props v = []"

text \<open>\<^verbatim>\<open>Object.keys(v)\<close>, which throws on \<^verbatim>\<open>undefined\<close> and \<^verbatim>\<open>null\<close>.\<close>

fun Object_keys :: "jsval \<Rightarrow> thrown + jsval" where
  "Object_keys Undefined = Inl TypeError"
| "Object_keys Null = Inl TypeError"
| "Object_keys v = Inr (Arr (map (\<lambda>(k, x). Str k) (enumerate_props v)))"

text \<open>The property read \<^verbatim>\<open>v[k]\<close>: it throws on \<^verbatim>\<open>undefined\<close> and \<^verbatim>\<open>null\<close>; an array and
  a string also have their \<^verbatim>\<open>length\<close>. Only own properties are read: a name that the
  value inherits from \<^verbatim>\<open>Object.prototype\<close> (\<^verbatim>\<open>constructor\<close>, \<^verbatim>\<open>toString\<close>, ...) reads as a
  function in JavaScript and as \<^verbatim>\<open>undefined\<close> here, so a column of such a name that the
  row does not have is outside the model.\<close>

fun get_prop :: "jsval \<Rightarrow> string \<Rightarrow> thrown + jsval" where
  "get_prop Undefined k = Inl TypeError"
| "get_prop Null k = Inl TypeError"
| "get_prop (Arr vs) k =
     Inr (if k = ''length'' then Num (int (length vs)) else getProp (enumerate_props (Arr vs)) k)"
| "get_prop (Str s) k =
     Inr (if k = ''length'' then Num (int (length s)) else getProp (enumerate_props (Str s)) k)"
| "get_prop v k = Inr (getProp (enumerate_props v) k)"

text \<open>The values of \<^verbatim>\<open>for (const x of v)\<close>: the elements of an array, the characters of
  a string; nothing else here is iterable.\<close>

fun iterate :: "jsval \<Rightarrow> thrown + jsval list" where
  "iterate (Arr vs) = Inr vs"
| "iterate (Str s) = Inr (map (\<lambda>c. Str [c]) s)"
| "iterate v = Inl TypeError"

text \<open>\<^verbatim>\<open>k in v\<close>, which throws unless \<^verbatim>\<open>v\<close> is an object or an array.\<close>

fun in_object :: "string \<Rightarrow> jsval \<Rightarrow> thrown + bool" where
  "in_object k (Obj kvs) = Inr (hasOwn kvs k)"
| "in_object k (Arr vs) = Inr (k = ''length'' \<or> hasOwn (enumerate_props (Arr vs)) k)"
| "in_object k v = Inl TypeError"

text \<open>Sequencing of steps that may throw.\<close>

definition andThen :: "'e + 'a \<Rightarrow> ('a \<Rightarrow> 'e + 'b) \<Rightarrow> 'e + 'b" where
  "andThen r f = (case r of Inl e \<Rightarrow> Inl e | Inr x \<Rightarrow> f x)"

section \<open>The operator: \<^verbatim>\<open>escape\<close>, \<^verbatim>\<open>escapeId\<close>, \<^verbatim>\<open>format\<close>\<close>

text \<open>The methods \<^verbatim>\<open>escape\<close> and \<^verbatim>\<open>escapeId\<close> of the operator (lines 13 to 19) hand their
  arguments to the library.\<close>

abbreviation escape :: "jsval \<Rightarrow> bool \<Rightarrow> string" where
  "escape value stringifyObjects \<equiv> SqlString_escape value stringifyObjects"

abbreviation escapeId :: "jsval \<Rightarrow> bool \<Rightarrow> string" where
  "escapeId value forbidQualified \<equiv> SqlString_escapeId value forbidQualified"

text \<open>The word characters \<^verbatim>\<open>\w\<close> of the pattern \<^verbatim>\<open>/\:(\w+)/g\<close>.\<close>

definition wordchar :: "char \<Rightarrow> bool" where
  "wordchar c =
     (let n = (of_char c :: nat)
      in (48 \<le> n \<and> n \<le> 57) \<or> (65 \<le> n \<and> n \<le> 90) \<or> n = 95 \<or> (97 \<le> n \<and> n \<le> 122))"

text \<open>The replacement function of \<^verbatim>\<open>format\<close> (lines 25 to 31). The call
  \<^verbatim>\<open>values.hasOwnProperty(key)\<close> looks \<^verbatim>\<open>hasOwnProperty\<close> up on \<^verbatim>\<open>values\<close> first: an own
  property of that name is a value of the model, not a function, and calling it throws.\<close>

definition replacer :: "(string \<times> jsval) list \<Rightarrow> string \<Rightarrow> string \<Rightarrow> thrown + string" where
  "replacer values text key =
     (if hasOwn values ''hasOwnProperty'' then Inl TypeError
      else if hasOwn values key then Inr (SqlString_escape (getProp values key) False)
      else Inr text)"

text \<open>\<^verbatim>\<open>sql.replace(/\:(\w+)/g, replacer)\<close>: the matches are found left to right, each a colon
  and the longest run of word characters after it, and do not overlap.\<close>

function replace_named :: "string \<Rightarrow> (string \<times> jsval) list \<Rightarrow> thrown + string" where
  "replace_named [] values = Inr []"
| "replace_named (c # s) values =
     (let key = takeWhile wordchar s
      in if c = CHR '':'' \<and> key \<noteq> [] then
           andThen (replacer values (c # key) key) (\<lambda>r.
           andThen (replace_named (dropWhile wordchar s) values) (\<lambda>t. Inr (r @ t)))
         else andThen (replace_named s values) (\<lambda>t. Inr (c # t)))"
  by pat_completeness auto
termination
  by (relation "measure (\<lambda>(s, values). length s)")
     (auto simp: less_Suc_eq_le length_dropWhile_le)

definition format :: "string \<Rightarrow> jsval \<Rightarrow> bool \<Rightarrow> thrown + string" where
  "format sql values stringifyObjects =
     (case values of
        Obj kvs \<Rightarrow> replace_named sql kvs
      | _ \<Rightarrow> Inr (SqlString_format sql values stringifyObjects))"

section \<open>The clause builders\<close>

definition where_template :: "jsval \<Rightarrow> string" where
  "where_template value =
     (if isArray value then ''?? IN (?)''
      else if value = Null \<or> value = Undefined then ''?? IS ?''
      else ''?? = ?'')"

text \<open>The loop of \<^verbatim>\<open>_where\<close> (lines 301 to 314): the templates and the values it pushes.\<close>

fun where_loop :: "(string \<times> jsval) list \<Rightarrow> string list \<times> jsval list" where
  "where_loop [] = ([], [])"
| "where_loop ((key, value) # rest) =
     (let (wheres, values) = where_loop rest
      in (where_template value # wheres, Str key # value # values))"

definition op_where :: "jsval \<Rightarrow> thrown + string" where
  "op_where w =
     (if \<not> truthy w then Inr []
      else
        let (wheres, values) = where_loop (enumerate_props w)
        in if length wheres > 0
           then format ('' WHERE '' @ join '' AND '' wheres) (Arr values) False
           else Inr [])"

definition op_selectColumns :: "jsval \<Rightarrow> jsval \<Rightarrow> thrown + string" where
  "op_selectColumns table columns =
     (let columns = (if \<not> truthy columns then Str ''*'' else columns)
      in if columns = Str ''*'' then format ''SELECT * FROM ??'' (Arr [table]) False
         else format ''SELECT ?? FROM ??'' (Arr [columns, table]) False)"

fun at_index :: "jsval list \<Rightarrow> nat \<Rightarrow> jsval" where
  "at_index vs i = (if i < length vs then vs ! i else Undefined)"

text \<open>The loop of \<^verbatim>\<open>_orders\<close> (lines 342 to 357).\<close>

fun orders_loop :: "jsval list \<Rightarrow> string list" where
  "orders_loop [] = []"
| "orders_loop (Str s # rest) = escapeId (Str s) False # orders_loop rest"
| "orders_loop (Arr value # rest) =
     (let sort = toUpperCase (to_String (at_index value 1))
      in if sort \<noteq> ''ASC'' \<and> sort \<noteq> ''DESC''
         then escapeId (at_index value 0) False # orders_loop rest
         else (escapeId (at_index value 0) False @ '' '' @ sort) # orders_loop rest)"
| "orders_loop (v # rest) = orders_loop rest"

definition op_orders :: "jsval \<Rightarrow> thrown + string" where
  "op_orders orders =
     (if \<not> truthy orders then Inr []
      else
        andThen (iterate (if isString orders then Arr [orders] else orders)) (\<lambda>entries.
        Inr ('' ORDER BY '' @ join '', '' (orders_loop entries))))"

definition op_limit :: "jsval \<Rightarrow> jsval \<Rightarrow> string" where
  "op_limit limit offset =
     (if \<not> truthy limit \<or> \<not> isNumber limit then []
      else
        let offset = (if \<not> isNumber offset then Num 0 else offset)
        in '' LIMIT '' @ to_String offset @ '', '' @ to_String limit)"

section \<open>The execution delegate and \<^verbatim>\<open>query\<close>\<close>

text \<open>
  The delegate \<^verbatim>\<open>_query\<close> is the subclass's: it takes the finished SQL text and the
  state of the connection, and gives the rows or rejects with an error object of its
  own, and the new state (specification, section 6: "execute(sqlText) -> sequence of row
  mappings", "may fail with a delegate-defined error"). The operations below are the
  bodies of the \<^verbatim>\<open>async\<close> methods: what the returned promise settles to, \<open>Inl\<close> for a
  rejection, and the state of the connection afterwards. A delegate that resolves to
  \<^verbatim>\<open>undefined\<close> or \<^verbatim>\<open>null\<close>, or rejects with something that is no error object, is
  outside this type.
\<close>

type_synonym row = "(string \<times> jsval) list"

type_synonym 's delegate = "string \<Rightarrow> 's \<Rightarrow> (errobj + row list) \<times> 's"

text \<open>\<^verbatim>\<open>query(sql, values)\<close>, lines 36 to 51; \<open>None\<close> for a call with one argument.\<close>

definition query ::
  "'s delegate \<Rightarrow> string \<Rightarrow> jsval option \<Rightarrow> 's \<Rightarrow> (thrown + row list) \<times> 's" where
  "query d sql values s =
     (case (case values of None \<Rightarrow> Inr sql | Some vs \<Rightarrow> format sql vs False) of
        Inl e \<Rightarrow> (Inl e, s)
      | Inr sql \<Rightarrow>
          (case d sql s of
             (Inr rows, s') \<Rightarrow> (Inr rows, s')
           | (Inl err, s') \<Rightarrow>
               (Inl (Rejected (err\<lparr>stack := stack err @ [CHR 0x0A] @ ''    sql: '' @ sql\<rparr>)), s')))"

text \<open>\<^verbatim>\<open>rows && rows[0] || null\<close> on the rows of the delegate.\<close>

fun first_or_null :: "row list \<Rightarrow> jsval" where
  "first_or_null [] = Null"
| "first_or_null (r # rs) = Obj r"

definition queryOne ::
  "'s delegate \<Rightarrow> string \<Rightarrow> jsval option \<Rightarrow> 's \<Rightarrow> (thrown + jsval) \<times> 's" where
  "queryOne d sql values s =
     (case query d sql values s of
        (Inl e, s') \<Rightarrow> (Inl e, s')
      | (Inr rows, s') \<Rightarrow> (Inr (first_or_null rows), s'))"

text \<open>For an operation that composes its SQL first and then hands it to \<^verbatim>\<open>query\<close>.\<close>

definition send ::
  "'s delegate \<Rightarrow> thrown + string \<Rightarrow> 's \<Rightarrow> (thrown + row list) \<times> 's" where
  "send d composed s =
     (case composed of Inl e \<Rightarrow> (Inl e, s) | Inr sql \<Rightarrow> query d sql None s)"

section \<open>The statements\<close>

subsection \<open>\<^verbatim>\<open>count\<close>, \<^verbatim>\<open>select\<close>, \<^verbatim>\<open>get\<close>, \<^verbatim>\<open>delete\<close>\<close>

definition count_sql :: "jsval \<Rightarrow> jsval \<Rightarrow> thrown + string" where
  "count_sql table w =
     andThen (format ''SELECT COUNT(*) as count FROM ??'' (Arr [table]) False) (\<lambda>a.
     andThen (op_where w) (\<lambda>b. Inr (a @ b)))"

text \<open>\<^verbatim>\<open>rows[0].count\<close>: a read on \<^verbatim>\<open>undefined\<close> when there is no row.\<close>

fun count_of :: "row list \<Rightarrow> thrown + jsval" where
  "count_of [] = Inl TypeError"
| "count_of (r # rs) = Inr (getProp r ''count'')"

definition count ::
  "'s delegate \<Rightarrow> jsval \<Rightarrow> jsval \<Rightarrow> 's \<Rightarrow> (thrown + jsval) \<times> 's" where
  "count d table w s =
     (case send d (count_sql table w) s of
        (Inl e, s') \<Rightarrow> (Inl e, s')
      | (Inr rows, s') \<Rightarrow> (count_of rows, s'))"

text \<open>The options object of \<^verbatim>\<open>select\<close>, \<^verbatim>\<open>get\<close>, \<^verbatim>\<open>insert\<close> and \<^verbatim>\<open>update\<close>: the properties
  the code reads, \<^verbatim>\<open>undefined\<close> for one that is not set. An argument that is left out
  (or falsy) is \<open>None\<close>, and \<^verbatim>\<open>options || {}\<close> is then a fresh object.\<close>

record options =
  opt_columns :: jsval
  opt_where :: jsval
  opt_orders :: jsval
  opt_limit :: jsval
  opt_offset :: jsval

definition no_options :: options where
  "no_options = \<lparr>opt_columns = Undefined, opt_where = Undefined, opt_orders = Undefined,
     opt_limit = Undefined, opt_offset = Undefined\<rparr>"

definition or_empty :: "options option \<Rightarrow> options" where
  "or_empty options = (case options of None \<Rightarrow> no_options | Some opts \<Rightarrow> opts)"

definition select_sql :: "jsval \<Rightarrow> options \<Rightarrow> thrown + string" where
  "select_sql table options =
     andThen (op_selectColumns table (opt_columns options)) (\<lambda>a.
     andThen (op_where (opt_where options)) (\<lambda>b.
     andThen (op_orders (opt_orders options)) (\<lambda>c.
     Inr (a @ b @ c @ op_limit (opt_limit options) (opt_offset options)))))"

definition select ::
  "'s delegate \<Rightarrow> jsval \<Rightarrow> options option \<Rightarrow> 's \<Rightarrow> (thrown + row list) \<times> 's" where
  "select d table options s = send d (select_sql table (or_empty options)) s"

text \<open>\<^verbatim>\<open>get\<close> writes into the object \<^verbatim>\<open>options\<close> names and passes it on to \<^verbatim>\<open>select\<close>. The
  third component of the result is that object after the call: the caller's own when
  one was passed.\<close>

definition get_options :: "jsval \<Rightarrow> options \<Rightarrow> options" where
  "get_options w options = options\<lparr>opt_where := w, opt_limit := Num 1, opt_offset := Num 0\<rparr>"

definition get ::
  "'s delegate \<Rightarrow> jsval \<Rightarrow> jsval \<Rightarrow> options option \<Rightarrow> 's
     \<Rightarrow> (thrown + jsval) \<times> 's \<times> options" where
  "get d table w options s =
     (let options = get_options w (or_empty options)
      in case select d table (Some options) s of
           (Inl e, s') \<Rightarrow> (Inl e, s', options)
         | (Inr rows, s') \<Rightarrow> (Inr (first_or_null rows), s', options))"

definition delete_sql :: "jsval \<Rightarrow> jsval \<Rightarrow> thrown + string" where
  "delete_sql table w =
     andThen (format ''DELETE FROM ??'' (Arr [table]) False) (\<lambda>a.
     andThen (op_where w) (\<lambda>b. Inr (a @ b)))"

definition delete ::
  "'s delegate \<Rightarrow> jsval \<Rightarrow> jsval \<Rightarrow> 's \<Rightarrow> (thrown + row list) \<times> 's" where
  "delete d table w s = send d (delete_sql table w) s"

subsection \<open>\<^verbatim>\<open>insert\<close>\<close>

text \<open>Lines 102 to 114: the first row, and the columns written into the options when
  none are set.\<close>

definition insert_columns :: "jsval \<Rightarrow> options \<Rightarrow> thrown + options" where
  "insert_columns rows options =
     (let firstObj = (case rows of Arr vs \<Rightarrow> at_index vs 0 | v \<Rightarrow> v)
      in if \<not> truthy (opt_columns options)
         then andThen (Object_keys firstObj) (\<lambda>keys. Inr (options\<lparr>opt_columns := keys\<rparr>))
         else Inr options)"

fun row_values :: "jsval \<Rightarrow> jsval list \<Rightarrow> thrown + jsval list" where
  "row_values row [] = Inr []"
| "row_values row (column # columns) =
     andThen (get_prop row (to_String column)) (\<lambda>v.
     andThen (row_values row columns) (\<lambda>values. Inr (v # values)))"

text \<open>Lines 118 to 125: the \<^verbatim>\<open>(?)\<close> of every row, and the parameters pushed.\<close>

fun insert_loop :: "jsval list \<Rightarrow> jsval \<Rightarrow> thrown + string list \<times> jsval list" where
  "insert_loop [] columns = Inr ([], [])"
| "insert_loop (row # rows) columns =
     andThen (iterate columns) (\<lambda>cs.
     andThen (row_values row cs) (\<lambda>values.
     andThen (insert_loop rows columns) (\<lambda>(strs, params).
     Inr (''(?)'' # strs, Arr values # params))))"

definition insert_sql :: "jsval \<Rightarrow> jsval \<Rightarrow> options \<Rightarrow> thrown + string" where
  "insert_sql table rows options =
     (let rows = (case rows of Arr vs \<Rightarrow> vs | v \<Rightarrow> [v])
      in andThen (insert_loop rows (opt_columns options)) (\<lambda>(strs, params).
         format (''INSERT INTO ??(??) VALUES'' @ join '', '' strs)
           (Arr ([table, opt_columns options] @ params)) False))"

definition insert_rows ::
  "'s delegate \<Rightarrow> jsval \<Rightarrow> jsval \<Rightarrow> options option \<Rightarrow> 's
     \<Rightarrow> (thrown + row list) \<times> 's \<times> options" where
  "insert_rows d table rows options s =
     (let options = or_empty options
      in case insert_columns rows options of
           Inl e \<Rightarrow> (Inl e, s, options)
         | Inr options \<Rightarrow>
             (case send d (insert_sql table rows options) s of (r, s') \<Rightarrow> (r, s', options)))"

subsection \<open>\<^verbatim>\<open>update\<close>\<close>

definition update_columns :: "jsval \<Rightarrow> options \<Rightarrow> thrown + options" where
  "update_columns row options =
     (if \<not> truthy (opt_columns options)
      then andThen (Object_keys row) (\<lambda>keys. Inr (options\<lparr>opt_columns := keys\<rparr>))
      else Inr options)"

definition update_where :: "jsval \<Rightarrow> options \<Rightarrow> thrown + options" where
  "update_where row options =
     (if \<not> truthy (opt_where options)
      then andThen (in_object ''id'' row) (\<lambda>has_id.
           if \<not> has_id
           then Inl (Error ''Can not auto detect update condition, please set options.where, or make sure obj.id exists'')
           else andThen (get_prop row ''id'') (\<lambda>v. Inr (options\<lparr>opt_where := Obj [(''id'', v)]\<rparr>)))
      else Inr options)"

text \<open>Lines 146 to 152.\<close>

fun update_loop :: "jsval \<Rightarrow> jsval list \<Rightarrow> thrown + string list \<times> jsval list" where
  "update_loop row [] = Inr ([], [])"
| "update_loop row (column # columns) =
     andThen (get_prop row (to_String column)) (\<lambda>v.
     andThen (update_loop row columns) (\<lambda>(sets, values).
     Inr (''?? = ?'' # sets, column # v # values)))"

definition update_sql :: "jsval \<Rightarrow> jsval \<Rightarrow> options \<Rightarrow> thrown + string" where
  "update_sql table row options =
     andThen (iterate (opt_columns options)) (\<lambda>cs.
     andThen (update_loop row cs) (\<lambda>(sets, values).
     andThen (format ''UPDATE ?? SET '' (Arr [table]) False) (\<lambda>a.
     andThen (format (join '', '' sets) (Arr values) False) (\<lambda>b.
     andThen (op_where (opt_where options)) (\<lambda>c. Inr (a @ b @ c))))))"

definition update ::
  "'s delegate \<Rightarrow> jsval \<Rightarrow> jsval \<Rightarrow> options option \<Rightarrow> 's
     \<Rightarrow> (thrown + row list) \<times> 's \<times> options" where
  "update d table row options s =
     (let options = or_empty options
      in case update_columns row options of
           Inl e \<Rightarrow> (Inl e, s, options)
         | Inr options \<Rightarrow>
             (case update_where row options of
                Inl e \<Rightarrow> (Inl e, s, options)
              | Inr options \<Rightarrow>
                  (case send d (update_sql table row options) s of
                     (r, s') \<Rightarrow> (r, s', options))))"

subsection \<open>\<^verbatim>\<open>updateRows\<close>\<close>

text \<open>
  \<^verbatim>\<open>SQL_CASE\<close> and \<^verbatim>\<open>WHERE\<close> are objects the code fills by assignment. A new property
  goes after the ones already there, except that a name which is an array index goes
  among the indices, in numeric order, before all other names: this is the order in
  which \<^verbatim>\<open>for ... in\<close> reads the object back.
\<close>

definition is_digit :: "char \<Rightarrow> bool" where
  "is_digit c = (let n = (of_char c :: int) in 48 \<le> n \<and> n \<le> 57)"

definition string_int :: "string \<Rightarrow> int" where
  "string_int k = foldl (\<lambda>n c. 10 * n + (of_char c - 48)) 0 k"

text \<open>An array index is the decimal notation, without leading zeros, of an integer from
  0 to \<open>2\<^sup>3\<^sup>2 - 2\<close>.\<close>

definition array_index :: "string \<Rightarrow> int option" where
  "array_index k =
     (if k \<noteq> [] \<and> list_all is_digit k \<and> (k = ''0'' \<or> hd k \<noteq> CHR ''0'')
         \<and> string_int k < 4294967295
      then Some (string_int k) else None)"

definition comes_before :: "string \<Rightarrow> string \<Rightarrow> bool" where
  "comes_before k k' =
     (case array_index k of
        None \<Rightarrow> False
      | Some n \<Rightarrow> (case array_index k' of None \<Rightarrow> True | Some n' \<Rightarrow> n < n'))"

fun put_own :: "(string \<times> 'a) list \<Rightarrow> string \<Rightarrow> 'a \<Rightarrow> (string \<times> 'a) list" where
  "put_own [] k v = [(k, v)]"
| "put_own ((k', v') # rest) k v =
     (if k' = k then (k, v) # rest
      else if comes_before k k' then (k, v) # (k', v') # rest
      else (k', v') # put_own rest k v)"

text \<open>The names every object inherits from \<^verbatim>\<open>Object.prototype\<close>. \<^verbatim>\<open>SQL_CASE[key]\<close> and
  \<^verbatim>\<open>WHERE[key]\<close> are truthy for them before anything is assigned, so that the code goes
  on to \<^verbatim>\<open>.when.push\<close> and \<^verbatim>\<open>.indexOf\<close> of the inherited value, which throws.\<close>

definition inherited_names :: "string list" where
  "inherited_names =
     [''constructor'', ''hasOwnProperty'', ''isPrototypeOf'', ''propertyIsEnumerable'',
      ''toLocaleString'', ''toString'', ''valueOf'', ''__proto__'',
      ''__defineGetter__'', ''__defineSetter__'', ''__lookupGetter__'', ''__lookupSetter__'']"

type_synonym sql_case = "(string \<times> string list \<times> jsval list) list"

type_synonym where_values = "(string \<times> jsval list) list"

text \<open>Lines 224 to 228, for one key of \<^verbatim>\<open>option.row\<close>.\<close>

definition case_push :: "sql_case \<Rightarrow> string \<Rightarrow> string \<Rightarrow> jsval \<Rightarrow> thrown + sql_case" where
  "case_push SQL_CASE key w v =
     (case map_of SQL_CASE key of
        Some (whens, thens) \<Rightarrow> Inr (put_own SQL_CASE key (whens @ [w], thens @ [v]))
      | None \<Rightarrow>
          if key \<in> set inherited_names then Inl TypeError
          else Inr (put_own SQL_CASE key ([w], [v])))"

text \<open>\<^verbatim>\<open>===\<close>, as \<^verbatim>\<open>Array.prototype.indexOf\<close> compares: by value on primitives, by
  identity on arrays and objects; the arrays and objects of the input are taken to be
  distinct objects.\<close>

fun strict_equal :: "jsval \<Rightarrow> jsval \<Rightarrow> bool" where
  "strict_equal (Arr a) v = False"
| "strict_equal (Obj a) v = False"
| "strict_equal u v = (u = v)"

text \<open>Lines 232 to 237, for one key of \<^verbatim>\<open>option.where\<close>.\<close>

definition where_push :: "where_values \<Rightarrow> string \<Rightarrow> jsval \<Rightarrow> thrown + where_values" where
  "where_push WHERE key v =
     (case map_of WHERE key of
        Some vs \<Rightarrow> Inr (put_own WHERE key (if list_ex (strict_equal v) vs then vs else vs @ [v]))
      | None \<Rightarrow>
          if key \<in> set inherited_names then Inl TypeError
          else Inr (put_own WHERE key [v]))"

fun case_loop :: "(string \<times> jsval) list \<Rightarrow> string \<Rightarrow> sql_case \<Rightarrow> thrown + sql_case" where
  "case_loop [] w SQL_CASE = Inr SQL_CASE"
| "case_loop ((key, v) # rest) w SQL_CASE =
     andThen (case_push SQL_CASE key ('' WHEN '' @ w @ '' THEN ? '') v) (case_loop rest w)"

fun where_values_loop :: "(string \<times> jsval) list \<Rightarrow> where_values \<Rightarrow> thrown + where_values" where
  "where_values_loop [] WHERE = Inr WHERE"
| "where_values_loop ((key, v) # rest) WHERE =
     andThen (where_push WHERE key v) (where_values_loop rest)"

text \<open>Lines 205 to 219: the check of one entry and its conversion to a row and a
  condition. \<^verbatim>\<open>option.hasOwnProperty\<close> is read on the entry itself.\<close>

definition no_condition :: string where
  "no_condition = ''Can not auto detect updateRows condition, please set option.row and option.where, or make sure option.id exists''"

fun normalize_option :: "jsval \<Rightarrow> thrown + jsval \<times> jsval" where
  "normalize_option Undefined = Inl TypeError"
| "normalize_option Null = Inl TypeError"
| "normalize_option (Obj kvs) =
     (if hasOwn kvs ''hasOwnProperty'' then Inl TypeError
      else if \<not> hasOwn kvs ''id'' \<and> \<not> (truthy (getProp kvs ''row'') \<and> truthy (getProp kvs ''where''))
      then Inl (Error no_condition)
      else if hasOwn kvs ''id''
      then Inr (Obj (filter (\<lambda>(key, v). key \<noteq> ''id'') kvs), Obj [(''id'', getProp kvs ''id'')])
      else Inr (getProp kvs ''row'', getProp kvs ''where''))"
| "normalize_option v = Inl (Error no_condition)"

text \<open>\<^verbatim>\<open>String.prototype.indexOf\<close>, \<open>None\<close> for \<^verbatim>\<open>-1\<close>.\<close>

fun indexOf :: "string \<Rightarrow> string \<Rightarrow> nat option" where
  "indexOf [] sub = (if sub = [] then Some 0 else None)"
| "indexOf (c # s) sub =
     (if take (length sub) (c # s) = sub then Some 0 else map_option Suc (indexOf s sub))"

definition strip_where :: "string \<Rightarrow> string" where
  "strip_where w = (case indexOf w ''WHERE'' of None \<Rightarrow> w | Some i \<Rightarrow> drop (i + 5) w)"

text \<open>The body of the \<^verbatim>\<open>forEach\<close>, lines 204 to 239.\<close>

definition updateRows_option ::
  "jsval \<Rightarrow> sql_case \<times> where_values \<Rightarrow> thrown + sql_case \<times> where_values" where
  "updateRows_option option acc =
     andThen (normalize_option option) (\<lambda>(row, w).
     andThen (op_where w) (\<lambda>text.
     andThen (case_loop (enumerate_props row) (strip_where text) (fst acc)) (\<lambda>SQL_CASE.
     andThen (where_values_loop (enumerate_props w) (snd acc)) (\<lambda>WHERE.
     Inr (SQL_CASE, WHERE)))))"

fun updateRows_loop ::
  "jsval list \<Rightarrow> sql_case \<times> where_values \<Rightarrow> thrown + sql_case \<times> where_values" where
  "updateRows_loop [] acc = Inr acc"
| "updateRows_loop (option # rest) acc =
     andThen (updateRows_option option acc) (updateRows_loop rest)"

text \<open>Lines 245 to 253: the template of every column and the values it adds.\<close>

fun case_templates :: "sql_case \<Rightarrow> string list \<times> jsval list" where
  "case_templates [] = ([], [])"
| "case_templates ((key, whens, thens) # rest) =
     (let (TEMPLATE, VALUES) = case_templates rest
      in (('' ?? = CASE '' @ join '' '' whens @ '' ELSE ?? END '') # TEMPLATE,
          Str key # thens @ [Str key] @ VALUES))"

definition updateRows_sql :: "jsval \<Rightarrow> jsval \<Rightarrow> thrown + string" where
  "updateRows_sql table options =
     (case options of
        Arr entries \<Rightarrow>
          andThen (updateRows_loop entries ([], [])) (\<lambda>(SQL_CASE, WHERE).
          let (TEMPLATE, VALUES) = case_templates SQL_CASE
          in andThen (op_where (Obj (map (\<lambda>(key, vs). (key, Arr vs)) WHERE))) (\<lambda>w.
             format (''UPDATE ?? SET '' @ join '' , '' TEMPLATE @ w) (Arr (table # VALUES)) False))
      | _ \<Rightarrow> Inl (Error ''Options should be array''))"

definition updateRows ::
  "'s delegate \<Rightarrow> jsval \<Rightarrow> jsval \<Rightarrow> 's \<Rightarrow> (thrown + row list) \<times> 's" where
  "updateRows d table options s = send d (updateRows_sql table options) s"

subsection \<open>Locks\<close>

text \<open>An entry of the list given to \<^verbatim>\<open>locks\<close>: the three properties the code reads,
  \<^verbatim>\<open>undefined\<close> for one that is not set.\<close>

record lock =
  tableName :: jsval
  lockType :: jsval
  tableAlias :: jsval

definition lock_types :: "string list" where
  "lock_types = [''READ'', ''WRITE'', ''READ LOCAL'', ''LOW_PRIORITY WRITE'']"

text \<open>\<^verbatim>\<open>lockType.toUpperCase()\<close>: only a string has the method.\<close>

fun call_toUpperCase :: "jsval \<Rightarrow> thrown + string" where
  "call_toUpperCase (Str s) = Inr (toUpperCase s)"
| "call_toUpperCase v = Inl TypeError"

text \<open>The loop of \<^verbatim>\<open>#locks\<close>, lines 426 to 447.\<close>

fun locks_loop :: "lock list \<Rightarrow> nat \<Rightarrow> string \<Rightarrow> thrown + string" where
  "locks_loop [] i sql = Inr sql"
| "locks_loop (t # rest) i sql =
     (if \<not> truthy (tableName t)
      then Inl (Error ''No table_name provided while trying to lock table'')
      else if \<not> truthy (lockType t)
      then Inl (Error (''No lock_type provided while trying to lock table `''
             @ to_String (tableName t) @ ''`''))
      else
        andThen (call_toUpperCase (lockType t)) (\<lambda>upper.
        if upper \<notin> set lock_types
        then Inl (Error (''lock_type provided while trying to lock table `''
               @ to_String (tableName t)
               @ ''` must be one of the following(CASE INSENSITIVE):'' @ [CHR 0x0A]
               @ ''`READ` | `WRITE` | `READ LOCAL` | `LOW_PRIORITY WRITE`''))
        else
          locks_loop rest (i + 1)
            (sql @ (if i > 0 then '', '' else [])
                 @ '' '' @ escapeId (tableName t) False @ '' ''
                 @ (if truthy (tableAlias t)
                    then '' AS '' @ escapeId (tableAlias t) False @ '' '' else [])
                 @ '' '' @ to_String (lockType t))))"

definition private_locks :: "lock list \<Rightarrow> thrown + string" where
  "private_locks tableLocks =
     (if length tableLocks = 0 then Inl (Error ''Cannot lock empty tables.'')
      else andThen (locks_loop tableLocks 0 ''LOCK TABLES '') (\<lambda>sql. Inr (sql @ '';'')))"

definition locks ::
  "'s delegate \<Rightarrow> lock list \<Rightarrow> 's \<Rightarrow> (thrown + row list) \<times> 's" where
  "locks d tables s = send d (private_locks tables) s"

definition lockOne ::
  "'s delegate \<Rightarrow> jsval \<Rightarrow> jsval \<Rightarrow> jsval \<Rightarrow> 's \<Rightarrow> (thrown + row list) \<times> 's" where
  "lockOne d name type alias s =
     send d (private_locks [\<lparr>tableName = name, lockType = type, tableAlias = alias\<rparr>]) s"

definition unlock :: "'s delegate \<Rightarrow> 's \<Rightarrow> (thrown + row list) \<times> 's" where
  "unlock d s = query d ''UNLOCK TABLES;'' None s"

section \<open>Calling a method\<close>

text \<open>
  What a call gives its caller at once: an exception thrown synchronously, or the value
  returned. A method declared \<^verbatim>\<open>async\<close> returns a promise, given here by what it settles
  to (\<open>Inl\<close> a rejection, \<open>Inr\<close> a fulfilment); an exception thrown in its body, also
  before the first \<^verbatim>\<open>await\<close>, rejects that promise and is not thrown to the caller. A
  method that is not \<^verbatim>\<open>async\<close> throws what its body throws.
\<close>

datatype 'a call = Thrown thrown | Returned 'a

type_synonym 'a promise = "thrown + 'a"

definition sync :: "thrown + 'a \<Rightarrow> 'a call" where
  "sync body = (case body of Inl e \<Rightarrow> Thrown e | Inr v \<Rightarrow> Returned v)"

definition async :: "(thrown + 'a) \<times> 'r \<Rightarrow> 'a promise call \<times> 'r" where
  "async body = (Returned (fst body), snd body)"

text \<open>\<^verbatim>\<open>async update(table, row, options)\<close>, line 132.\<close>

definition update_call ::
  "'s delegate \<Rightarrow> jsval \<Rightarrow> jsval \<Rightarrow> options option \<Rightarrow> 's
     \<Rightarrow> row list promise call \<times> 's \<times> options" where
  "update_call d table row options s = async (update d table row options s)"

text \<open>\<^verbatim>\<open>async updateRows(table, options)\<close>, line 187.\<close>

definition updateRows_call ::
  "'s delegate \<Rightarrow> jsval \<Rightarrow> jsval \<Rightarrow> 's \<Rightarrow> row list promise call \<times> 's" where
  "updateRows_call d table options s = async (updateRows d table options s)"

text \<open>\<^verbatim>\<open>async locks(tables)\<close>, line 387, and \<^verbatim>\<open>async lockOne\<close>, line 411.\<close>

definition locks_call ::
  "'s delegate \<Rightarrow> lock list \<Rightarrow> 's \<Rightarrow> row list promise call \<times> 's" where
  "locks_call d tables s = async (locks d tables s)"

definition lockOne_call ::
  "'s delegate \<Rightarrow> jsval \<Rightarrow> jsval \<Rightarrow> jsval \<Rightarrow> 's \<Rightarrow> row list promise call \<times> 's" where
  "lockOne_call d name type alias s = async (lockOne d name type alias s)"

text \<open>\<^verbatim>\<open>#locks(tableLocks)\<close>, line 421, is not \<^verbatim>\<open>async\<close>.\<close>

definition private_locks_call :: "lock list \<Rightarrow> string call" where
  "private_locks_call tableLocks = sync (private_locks tableLocks)"

section \<open>What the specification says, for comparison\<close>

text \<open>The fragment the specification gives for one key of a WhereSpec (section 3):
  "array: generates \<^verbatim>\<open>column IN (...)\<close>; null/absent: \<^verbatim>\<open>column IS NULL\<close>; scalar:
  \<^verbatim>\<open>column = value\<close>", with the column escaped as an identifier and the value as a
  literal.\<close>

definition where_fragment_spec :: "string \<times> jsval \<Rightarrow> string" where
  "where_fragment_spec kv =
     (case kv of (key, value) \<Rightarrow>
        if isArray value then escapeId (Str key) False @ '' IN ('' @ escape value False @ '')''
        else if value = Null \<or> value = Undefined then escapeId (Str key) False @ '' IS NULL''
        else escapeId (Str key) False @ '' = '' @ escape value False)"

text \<open>The words of a statement: its text between blanks. Two statements with the same
  words differ only in the number of blanks between them.\<close>

fun split_blanks :: "string \<Rightarrow> string \<Rightarrow> string list" where
  "split_blanks word [] = (if word = [] then [] else [word])"
| "split_blanks word (c # s) =
     (if c = CHR '' '' then (if word = [] then split_blanks [] s else word # split_blanks [] s)
      else split_blanks (word @ [c]) s)"

definition sql_words :: "string \<Rightarrow> string list" where
  "sql_words s = split_blanks [] s"

section \<open>Delegates for testing\<close>

text \<open>A delegate that gives \<open>rows\<close> for one statement, byte for byte, and rejects every
  other; its state counts the statements it was given.\<close>

definition only_answers :: "string \<Rightarrow> row list \<Rightarrow> nat delegate" where
  "only_answers expected rows sql n =
     (if sql = expected then Inr rows
      else Inl \<lparr>message = ''unexpected statement'', stack = ''Error: unexpected statement''\<rparr>,
      Suc n)"

text \<open>Any delegate, with a log of the statements it was given.\<close>

definition logged :: "'s delegate \<Rightarrow> ('s \<times> string list) delegate" where
  "logged d sql = (\<lambda>(s, log). case d sql s of (r, s') \<Rightarrow> (r, s', log @ [sql]))"

section \<open>Lock requests, for stating what \<^verbatim>\<open>#locks\<close> emits\<close>

text \<open>A request that passes the checks of \<^verbatim>\<open>#locks\<close> (specification, section 4.6): it
  has a table name, and its lock type is a string that, in upper case, is one of the
  four lock types.\<close>

definition valid_lock :: "lock \<Rightarrow> bool" where
  "valid_lock t =
     (truthy (tableName t)
      \<and> (case lockType t of Str given \<Rightarrow> toUpperCase given \<in> set lock_types | _ \<Rightarrow> False))"

text \<open>The text of one request: the escaped table name, the escaped alias after \<^verbatim>\<open>AS\<close> when
  there is one, and the lock type as it was given.\<close>

definition lock_text :: "lock \<Rightarrow> string" where
  "lock_text t =
     '' '' @ escapeId (tableName t) False @ '' ''
     @ (if truthy (tableAlias t) then '' AS '' @ escapeId (tableAlias t) False @ '' '' else [])
     @ '' '' @ to_String (lockType t)"

section \<open>Entries of a batch, for stating when \<^verbatim>\<open>updateRows\<close> fails\<close>

text \<open>An entry that has neither an \<^verbatim>\<open>id\<close> property nor both a \<^verbatim>\<open>row\<close> and a \<^verbatim>\<open>where\<close>
  (specification, section 4.5); a value that is no object has none of them.\<close>

fun lacks_condition :: "jsval \<Rightarrow> bool" where
  "lacks_condition (Obj kvs) =
     (\<not> hasOwn kvs ''id'' \<and> \<not> (truthy (getProp kvs ''row'') \<and> truthy (getProp kvs ''where'')))"
| "lacks_condition v = True"

section \<open>Properties\<close>

subsection \<open>Sequencing and positional substitution\<close>

lemma andThen_Inl [simp]: "andThen (Inl e) f = Inl e"
  by (simp add: andThen_def)

lemma andThen_Inr [simp]: "andThen (Inr x) f = f x"
  by (simp add: andThen_def)

lemma join_Cons: "xs \<noteq> [] \<Longrightarrow> join sep (x # xs) = x @ sep @ join sep xs"
  by (cases xs) simp_all

lemma fill_Nil_values [simp]: "fill s [] b = s"
  by (cases s) simp_all

text \<open>Text without a question mark is copied.\<close>

lemma fill_plain:
  "CHR ''?'' \<notin> set p \<Longrightarrow> fill (p @ s) vs b = p @ fill s vs b"
proof (induction p)
  case Nil
  then show ?case by simp
next
  case (Cons c p)
  then show ?case by (cases vs) auto
qed

text \<open>The two placeholders, when no further question mark follows them.\<close>

lemma fill_identifier:
  "s = [] \<or> hd s \<noteq> CHR ''?'' \<Longrightarrow>
   fill (''??'' @ s) (v # vs) b = escapeId v False @ fill s vs b"
  by (cases s) (simp_all add: Let_def)

lemma fill_value:
  "s = [] \<or> hd s \<noteq> CHR ''?'' \<Longrightarrow>
   fill (''?'' @ s) (v # vs) b = escape v b @ fill s vs b"
  by (cases s) (simp_all add: Let_def)

lemma format_array [simp]: "format sql (Arr vs) b = Inr (fill sql vs b)"
  by (simp add: format_def SqlString_format_def)

subsection \<open>The WHERE builder\<close>

lemma fill_where_template:
  assumes "s = [] \<or> hd s \<noteq> CHR ''?''"
  shows "fill (where_template v @ s) (Str k # v # vs) False
         = where_fragment_spec (k, v) @ fill s vs False"
proof -
  have a: "fill (''?? IN (?)'' @ s) (Str k # v # vs) False
      = escapeId (Str k) False @ '' IN ('' @ escape v False @ '')'' @ fill s vs False"
    using fill_identifier [of "'' IN (?)'' @ s" "Str k" "v # vs" False]
      fill_plain [of "'' IN (''" "''?)'' @ s" "v # vs" False]
      fill_value [of "'')'' @ s" v vs False]
      fill_plain [of "'')''" s vs False]
    by simp
  have b: "fill (''?? IS ?'' @ s) (Str k # v # vs) False
      = escapeId (Str k) False @ '' IS '' @ escape v False @ fill s vs False"
    using fill_identifier [of "'' IS ?'' @ s" "Str k" "v # vs" False]
      fill_plain [of "'' IS ''" "''?'' @ s" "v # vs" False]
      fill_value [of s v vs False] assms
    by simp
  have c: "fill (''?? = ?'' @ s) (Str k # v # vs) False
      = escapeId (Str k) False @ '' = '' @ escape v False @ fill s vs False"
    using fill_identifier [of "'' = ?'' @ s" "Str k" "v # vs" False]
      fill_plain [of "'' = ''" "''?'' @ s" "v # vs" False]
      fill_value [of s v vs False] assms
    by simp
  show ?thesis
    using a b c by (auto simp: where_template_def where_fragment_spec_def)
qed

lemma where_loop_eq:
  "where_loop kvs =
     (map (\<lambda>(k, v). where_template v) kvs, concat (map (\<lambda>(k, v). [Str k, v]) kvs))"
  by (induction kvs) (auto simp: Let_def)

lemma fill_where_join:
  "kvs \<noteq> [] \<Longrightarrow>
   fill (join '' AND '' (map (\<lambda>(k, v). where_template v) kvs))
     (concat (map (\<lambda>(k, v). [Str k, v]) kvs)) False
   = join '' AND '' (map where_fragment_spec kvs)"
proof (induction kvs rule: list_nonempty_induct)
  case (single kv)
  obtain k v where kv: "kv = (k, v)" by (cases kv)
  show ?case
    using fill_where_template [of "[]" v k "[]"] by (simp add: kv)
next
  case (cons kv kvs)
  obtain k v where kv: "kv = (k, v)" by (cases kv)
  have "fill (where_template v @ '' AND '' @ join '' AND '' (map (\<lambda>(k, v). where_template v) kvs))
          (Str k # v # concat (map (\<lambda>(k, v). [Str k, v]) kvs)) False
        = where_fragment_spec (k, v) @ '' AND '' @ join '' AND '' (map where_fragment_spec kvs)"
    using fill_where_template [of "'' AND '' @ join '' AND '' (map (\<lambda>(k, v). where_template v) kvs)" v k]
      fill_plain [of "'' AND ''"] cons.IH
    by simp
  then show ?case
    using cons.hyps by (simp add: kv join_Cons)
qed

lemma op_where_object:
  "kvs \<noteq> [] \<Longrightarrow>
   op_where (Obj kvs) = Inr ('' WHERE '' @ join '' AND '' (map where_fragment_spec kvs))"
  using fill_plain [of "'' WHERE ''"] fill_where_join [of kvs]
  by (simp add: op_where_def where_loop_eq)

lemma op_where_falsy: "\<not> truthy w \<Longrightarrow> op_where w = Inr []"
  by (simp add: op_where_def)

lemma op_where_empty [simp]: "op_where (Obj []) = Inr []"
  by (simp add: op_where_def)

text \<open>The evaluation of the escaping functions on literals.\<close>

lemmas escape_eval =
  show_int_def digits.simps digit_char_def double_backticks_def split_qualified_def
  escapeString_def escape_char_def

text \<open>
  Claim C1. For every WhereSpec given to \<^verbatim>\<open>_where\<close>: an absent (falsy) spec and the empty
  object give the empty string; otherwise every key gives, in the order of the mapping,
  \<^verbatim>\<open>`key` IN (...)\<close> for an array, \<^verbatim>\<open>`key` IS NULL\<close> for null, \<^verbatim>\<open>`key` = value\<close> for a
  scalar, the fragments joined with \<^verbatim>\<open> AND \<close> after \<^verbatim>\<open> WHERE \<close>; and
  \<^verbatim>\<open>{a: 1, b: [2,3]}\<close> gives exactly \<^verbatim>\<open> WHERE `a` = 1 AND `b` IN (2, 3)\<close>.
\<close>

theorem where_clause:
  "(\<not> truthy w \<longrightarrow> op_where w = Inr [])
   \<and> op_where (Obj []) = Inr []
   \<and> (kvs \<noteq> [] \<longrightarrow>
        op_where (Obj kvs) = Inr ('' WHERE '' @ join '' AND '' (map where_fragment_spec kvs)))
   \<and> op_where (Obj [(''a'', Num 1), (''b'', Arr [Num 2, Num 3])])
        = Inr '' WHERE `a` = 1 AND `b` IN (2, 3)''"
proof -
  have "op_where (Obj [(''a'', Num 1), (''b'', Arr [Num 2, Num 3])])
        = Inr '' WHERE `a` = 1 AND `b` IN (2, 3)''"
    by (simp add: op_where_object where_fragment_spec_def escape_eval)
  then show ?thesis
    by (simp add: op_where_object op_where_falsy)
qed

theorem where_clause_witness:
  "\<not> truthy (Num 0) \<and> op_where (Num 0) = Inr []
   \<and> [(''x'', Null), (''y'', Str ''v''), (''z'', Arr [Num 10, Num (-7)])] \<noteq> []
   \<and> op_where (Obj [(''x'', Null), (''y'', Str ''v''), (''z'', Arr [Num 10, Num (-7)])])
       = Inr '' WHERE `x` IS NULL AND `y` = 'v' AND `z` IN (10, -7)''"
  using where_clause [of "Num 0" "[(''x'', Null), (''y'', Str ''v''), (''z'', Arr [Num 10, Num (-7)])]"]
  by (simp add: where_fragment_spec_def escape_eval)

lemma op_where_total: "\<exists>b. op_where w = Inr b"
  by (simp add: op_where_def split: prod.splits)

subsection \<open>Handing the statement to the delegate\<close>

lemma send_Inr [simp]: "send d (Inr sql) s = query d sql None s"
  by (simp add: send_def)

lemma send_Inl [simp]: "send d (Inl e) s = (Inl e, s)"
  by (simp add: send_def)

lemma format_table:
  "CHR ''?'' \<notin> set p \<Longrightarrow> format (p @ ''??'') (Arr [table]) False = Inr (p @ escapeId table False)"
  using fill_plain [of p "''??''" "[table]" False] fill_identifier [of "[]" table "[]" False]
  by simp

subsection \<open>\<^verbatim>\<open>count\<close>\<close>

lemma count_sql_eq:
  "op_where w = Inr b \<Longrightarrow>
   count_sql table w = Inr (''SELECT COUNT(*) as count FROM '' @ escapeId table False @ b)"
  using format_table [of "''SELECT COUNT(*) as count FROM ''" table]
  by (simp add: count_sql_def)

text \<open>
  Claim C8, as the code has it. For every table and WhereSpec, \<^verbatim>\<open>count\<close> composes
  \<^verbatim>\<open>SELECT COUNT(*) as count FROM\<close>, the escaped table and the where fragment, with
  \<^verbatim>\<open>as\<close> in lower case, hands exactly this text to the delegate and returns the
  \<^verbatim>\<open>count\<close> field of row 0 of the delegate's rows.
\<close>

theorem count_statement:
  assumes "op_where w = Inr b"
    and "d (''SELECT COUNT(*) as count FROM '' @ escapeId table False @ b) s = (Inr (r # rs), s')"
  shows "count_sql table w = Inr (''SELECT COUNT(*) as count FROM '' @ escapeId table False @ b)
         \<and> count d table w s = (Inr (getProp r ''count''), s')"
  using assms by (simp add: count_def count_sql_eq query_def)

theorem count_statement_witness:
  "op_where (Obj [(''a'', Num 1)]) = Inr '' WHERE `a` = 1''
   \<and> only_answers ''SELECT COUNT(*) as count FROM `t` WHERE `a` = 1'' [[(''count'', Num 3)]]
        (''SELECT COUNT(*) as count FROM '' @ escapeId (Str ''t'') False @ '' WHERE `a` = 1'') 0
      = (Inr ([(''count'', Num 3)] # []), 1)
   \<and> count_sql (Str ''t'') (Obj [(''a'', Num 1)])
      = Inr ''SELECT COUNT(*) as count FROM `t` WHERE `a` = 1''
   \<and> count (only_answers ''SELECT COUNT(*) as count FROM `t` WHERE `a` = 1'' [[(''count'', Num 3)]])
        (Str ''t'') (Obj [(''a'', Num 1)]) 0 = (Inr (Num 3), 1)"
proof -
  have w: "op_where (Obj [(''a'', Num 1)]) = Inr '' WHERE `a` = 1''"
    by (simp add: op_where_object where_fragment_spec_def escape_eval)
  have d: "only_answers ''SELECT COUNT(*) as count FROM `t` WHERE `a` = 1'' [[(''count'', Num 3)]]
        (''SELECT COUNT(*) as count FROM '' @ escapeId (Str ''t'') False @ '' WHERE `a` = 1'') 0
      = (Inr ([(''count'', Num 3)] # []), 1)"
    by (simp add: only_answers_def escape_eval)
  show ?thesis
    using count_statement
        [where d = "only_answers ''SELECT COUNT(*) as count FROM `t` WHERE `a` = 1'' [[(''count'', Num 3)]]"
           and table = "Str ''t''", OF w d] w d
    by (simp add: getProp_def escape_eval)
qed

text \<open>The statement with \<^verbatim>\<open>AS\<close> in upper case is not the one composed: for the table
  \<^verbatim>\<open>t\<close> and no condition the text is \<^verbatim>\<open>SELECT COUNT(*) as count FROM `t`\<close>.\<close>

theorem count_uppercase_counterexample:
  "count_sql (Str ''t'') Undefined = Inr ''SELECT COUNT(*) as count FROM `t`''
   \<and> count_sql (Str ''t'') Undefined \<noteq> Inr ''SELECT COUNT(*) AS count FROM `t`''"
  by (simp add: count_sql_eq [of Undefined "[]"] op_where_falsy escape_eval)

subsection \<open>Locks\<close>

lemma valid_lock_step:
  assumes "valid_lock t"
  shows "locks_loop (t # rest) i sql
         = locks_loop rest (i + 1) (sql @ (if i > 0 then '', '' else []) @ lock_text t)"
proof -
  obtain given where g: "lockType t = Str given" "toUpperCase given \<in> set lock_types"
    using assms by (auto simp: valid_lock_def split: jsval.splits)
  have "given \<noteq> []"
    using g(2) by (auto simp: lock_types_def toUpperCase_def)
  then show ?thesis
    using assms g by (simp add: valid_lock_def lock_text_def)
qed

lemma upper_char_eval:
  "upper_char c = (let n = (of_char c :: nat) in
     if 97 \<le> n \<and> n \<le> 122
     then Char (bit (n - 32) 0) (bit (n - 32) 1) (bit (n - 32) 2) (bit (n - 32) 3)
            (bit (n - 32) 4) (bit (n - 32) 5) (bit (n - 32) 6) (bit (n - 32) 7)
     else c)"
  by (simp add: upper_char_def char_of_def Let_def)

lemmas upper_eval = toUpperCase_def upper_char_eval bit_Suc_0_iff bit_1_iff

lemma locks_loop_valid:
  "list_all valid_lock ts \<Longrightarrow>
   locks_loop ts i sql
   = Inr (sql @ (if i > 0 \<and> ts \<noteq> [] then '', '' else []) @ join '', '' (map lock_text ts))"
proof (induction ts arbitrary: i sql)
  case Nil
  then show ?case by simp
next
  case (Cons t ts)
  have "locks_loop (t # ts) i sql
        = locks_loop ts (i + 1) (sql @ (if i > 0 then '', '' else []) @ lock_text t)"
    using Cons.prems by (simp add: valid_lock_step del: locks_loop.simps)
  also have "\<dots> = Inr ((sql @ (if i > 0 then '', '' else []) @ lock_text t)
                      @ (if ts \<noteq> [] then '', '' else []) @ join '', '' (map lock_text ts))"
    using Cons.IH [of "i + 1"] Cons.prems by simp
  also have "\<dots> = Inr (sql @ (if i > 0 \<and> t # ts \<noteq> [] then '', '' else [])
                      @ join '', '' (map lock_text (t # ts)))"
    by (cases ts) simp_all
  finally show ?case .
qed

text \<open>
  Claim C6, as the code has it. The lock-statement builder accepts the lock type in any
  case and emits it as it was given, without normalising it: for every valid list of
  requests the statement is \<^verbatim>\<open>LOCK TABLES \<close>, the requests' texts joined with \<^verbatim>\<open>, \<close>, and
  \<^verbatim>\<open>;\<close>. For \<^verbatim>\<open>[{tableName:'t', lockType:'read'}]\<close> it is \<^verbatim>\<open>LOCK TABLES  `t`  read;\<close>.
\<close>

theorem lock_statement:
  assumes "ts \<noteq> []" and "list_all valid_lock ts"
  shows "private_locks ts = Inr (''LOCK TABLES '' @ join '', '' (map lock_text ts) @ '';'')"
  using assms by (simp add: private_locks_def locks_loop_valid)

theorem lock_statement_witness:
  "[\<lparr>tableName = Str ''t'', lockType = Str ''read'', tableAlias = Undefined\<rparr>,
    \<lparr>tableName = Str ''u'', lockType = Str ''Low_Priority Write'', tableAlias = Str ''x''\<rparr>] \<noteq> []
   \<and> list_all valid_lock
       [\<lparr>tableName = Str ''t'', lockType = Str ''read'', tableAlias = Undefined\<rparr>,
        \<lparr>tableName = Str ''u'', lockType = Str ''Low_Priority Write'', tableAlias = Str ''x''\<rparr>]
   \<and> private_locks
       [\<lparr>tableName = Str ''t'', lockType = Str ''read'', tableAlias = Undefined\<rparr>,
        \<lparr>tableName = Str ''u'', lockType = Str ''Low_Priority Write'', tableAlias = Str ''x''\<rparr>]
      = Inr ''LOCK TABLES  `t`  read,  `u`  AS `x`  Low_Priority Write;''"
proof -
  have v: "list_all valid_lock
       [\<lparr>tableName = Str ''t'', lockType = Str ''read'', tableAlias = Undefined\<rparr>,
        \<lparr>tableName = Str ''u'', lockType = Str ''Low_Priority Write'', tableAlias = Str ''x''\<rparr>]"
    by (simp add: valid_lock_def lock_types_def upper_eval)
  show ?thesis
    using lock_statement [OF _ v] v by (simp add: lock_text_def escape_eval)
qed

text \<open>The lock type is not put in upper case: \<^verbatim>\<open>read\<close> is emitted as \<^verbatim>\<open>read\<close> (and two
  blanks follow \<^verbatim>\<open>LOCK TABLES\<close>).\<close>

theorem lock_uppercase_counterexample:
  "private_locks [\<lparr>tableName = Str ''t'', lockType = Str ''read'', tableAlias = Undefined\<rparr>]
     = Inr ''LOCK TABLES  `t`  read;''
   \<and> private_locks [\<lparr>tableName = Str ''t'', lockType = Str ''read'', tableAlias = Undefined\<rparr>]
     \<noteq> Inr ''LOCK TABLES `t`  READ;''"
  by (simp add: private_locks_def lock_types_def upper_eval escape_eval)

subsection \<open>The ORDER BY builder and \<^verbatim>\<open>select\<close>\<close>

lemma orders_loop_skip:
  "orders_loop vs = orders_loop (filter (\<lambda>v. isString v \<or> isArray v) vs)"
  by (induction vs rule: orders_loop.induct) (simp_all add: Let_def)

lemma orders_loop_none:
  "\<forall>v \<in> set vs. \<not> isString v \<and> \<not> isArray v \<Longrightarrow> orders_loop vs = []"
  by (induction vs rule: orders_loop.induct) simp_all

lemma op_orders_array: "op_orders (Arr vs) = Inr ('' ORDER BY '' @ join '', '' (orders_loop vs))"
  by (simp add: op_orders_def)

lemma op_selectColumns_total: "\<exists>a. op_selectColumns table columns = Inr a"
  by (simp add: op_selectColumns_def Let_def)

lemma select_star:
  "\<not> truthy columns \<Longrightarrow> op_selectColumns table columns = Inr (''SELECT * FROM '' @ escapeId table False)"
  using format_table [of "''SELECT * FROM ''" table]
  by (simp add: op_selectColumns_def)

text \<open>
  Claim C10. For an orders spec that is the empty array, or an array whose entries are
  all neither strings nor arrays, \<^verbatim>\<open>_orders\<close> returns \<^verbatim>\<open> ORDER BY \<close> with no column list,
  not the empty string; such entries are skipped without an error among others; and
  \<^verbatim>\<open>select\<close> with \<^verbatim>\<open>orders: []\<close> and no limit hands the delegate a statement that ends in
  the bare \<^verbatim>\<open> ORDER BY \<close>.
\<close>

theorem orders_dangling:
  "op_orders (Arr []) = Inr '' ORDER BY ''
   \<and> ((\<forall>v \<in> set vs. \<not> isString v \<and> \<not> isArray v) \<longrightarrow> op_orders (Arr vs) = Inr '' ORDER BY '')
   \<and> op_orders (Arr vs) = op_orders (Arr (filter (\<lambda>v. isString v \<or> isArray v) vs))
   \<and> (opt_orders options = Arr [] \<and> \<not> truthy (opt_limit options) \<longrightarrow>
        (\<exists>p. select_sql table options = Inr (p @ '' ORDER BY '')
           \<and> select d table (Some options) s = query d (p @ '' ORDER BY '') None s))
   \<and> select_sql table (no_options\<lparr>opt_orders := Arr []\<rparr>)
        = Inr (''SELECT * FROM '' @ escapeId table False @ '' ORDER BY '')"
proof -
  have skip: "op_orders (Arr vs) = op_orders (Arr (filter (\<lambda>v. isString v \<or> isArray v) vs))"
    using orders_loop_skip [of vs] by (simp add: op_orders_array)
  have ending: "\<exists>p. select_sql table options = Inr (p @ '' ORDER BY '')
           \<and> select d table (Some options) s = query d (p @ '' ORDER BY '') None s"
    if "opt_orders options = Arr []" and "\<not> truthy (opt_limit options)"
  proof -
    obtain a where a: "op_selectColumns table (opt_columns options) = Inr a"
      using op_selectColumns_total by blast
    obtain b where b: "op_where (opt_where options) = Inr b"
      using op_where_total by blast
    have "select_sql table options = Inr ((a @ b) @ '' ORDER BY '')"
      using a b that by (simp add: select_sql_def op_orders_array op_limit_def)
    then show ?thesis
      by (auto simp: select_def or_empty_def)
  qed
  have star: "select_sql table (no_options\<lparr>opt_orders := Arr []\<rparr>)
        = Inr (''SELECT * FROM '' @ escapeId table False @ '' ORDER BY '')"
    by (simp add: select_sql_def no_options_def select_star op_where_falsy op_orders_array
        op_limit_def)
  show ?thesis
    using skip ending star by (simp add: op_orders_array orders_loop_none)
qed

theorem orders_dangling_witness:
  "list_all (\<lambda>v. \<not> isString v \<and> \<not> isArray v) [Num 1, Null, Obj [(''name'', Str ''asc'')]]
   \<and> op_orders (Arr [Num 1, Null, Obj [(''name'', Str ''asc'')]]) = Inr '' ORDER BY ''
   \<and> opt_orders (no_options\<lparr>opt_where := Obj [(''a'', Num 1)], opt_orders := Arr []\<rparr>) = Arr []
   \<and> \<not> truthy (opt_limit (no_options\<lparr>opt_where := Obj [(''a'', Num 1)], opt_orders := Arr []\<rparr>))
   \<and> (\<exists>p. select_sql (Str ''t'') (no_options\<lparr>opt_where := Obj [(''a'', Num 1)], opt_orders := Arr []\<rparr>)
            = Inr (p @ '' ORDER BY '')
         \<and> select (only_answers [] []) (Str ''t'')
              (Some (no_options\<lparr>opt_where := Obj [(''a'', Num 1)], opt_orders := Arr []\<rparr>)) 0
            = query (only_answers [] []) (p @ '' ORDER BY '') None 0)"
  using orders_dangling [of "[Num 1, Null, Obj [(''name'', Str ''asc'')]]"
      "no_options\<lparr>opt_where := Obj [(''a'', Num 1)], opt_orders := Arr []\<rparr>"
      "Str ''t''" "only_answers [] []" 0]
  by (simp add: no_options_def)

subsection \<open>\<^verbatim>\<open>query\<close>\<close>

lemma query_sent:
  "query d sql None s =
     (case d sql s of
        (Inr rows, s') \<Rightarrow> (Inr rows, s')
      | (Inl err, s') \<Rightarrow>
          (Inl (Rejected (err\<lparr>stack := stack err @ [CHR 0x0A] @ ''    sql: '' @ sql\<rparr>)), s'))"
  by (simp add: query_def)

text \<open>
  Claim C7. Let \<open>text\<close> be the statement \<^verbatim>\<open>query\<close> hands to the delegate (the template
  itself, or the formatted template when values are given). When the delegate rejects
  it, \<^verbatim>\<open>query\<close> rejects with the same error object, changed only in its \<^verbatim>\<open>stack\<close>, to
  which a line with the statement is appended; when the delegate gives rows, these are
  returned as they are; and the delegate is called once, with that statement.
\<close>

theorem query_rethrows:
  assumes "(case values of None \<Rightarrow> Inr sql | Some vs \<Rightarrow> format sql vs False) = Inr text"
  shows "(d text s = (Inl err, s') \<longrightarrow>
            query d sql values s
            = (Inl (Rejected (err\<lparr>stack := stack err @ [CHR 0x0A] @ ''    sql: '' @ text\<rparr>)), s'))
         \<and> (d text s = (Inr rows, s') \<longrightarrow> query d sql values s = (Inr rows, s'))
         \<and> snd (snd (query (logged d) sql values (s, log))) = log @ [text]"
  using assms by (auto simp: query_def logged_def split: prod.splits sum.splits)

theorem query_rethrows_witness:
  "(case Some (Obj [(''id'', Num 7)]) of None \<Rightarrow> Inr ''select :id, :x''
      | Some vs \<Rightarrow> format ''select :id, :x'' vs False) = Inr ''select 7, :x''
   \<and> only_answers ''select 1'' [] ''select 7, :x'' 0
       = (Inl \<lparr>message = ''unexpected statement'', stack = ''Error: unexpected statement''\<rparr>, 1)
   \<and> query (only_answers ''select 1'' []) ''select :id, :x'' (Some (Obj [(''id'', Num 7)])) 0
       = (Inl (Rejected \<lparr>message = ''unexpected statement'',
            stack = ''Error: unexpected statement'' @ [CHR 0x0A] @ ''    sql: select 7, :x''\<rparr>), 1)
   \<and> only_answers ''select 7, :x'' [[(''n'', Num 7)]] ''select 7, :x'' 0
       = (Inr [[(''n'', Num 7)]], 1)
   \<and> query (only_answers ''select 7, :x'' [[(''n'', Num 7)]]) ''select :id, :x''
        (Some (Obj [(''id'', Num 7)])) 0 = (Inr [[(''n'', Num 7)]], 1)
   \<and> snd (snd (query (logged (only_answers ''select 1'' [])) ''select :id, :x''
        (Some (Obj [(''id'', Num 7)])) (0, []))) = [''select 7, :x'']"
proof -
  have f: "(case Some (Obj [(''id'', Num 7)]) of None \<Rightarrow> Inr ''select :id, :x''
      | Some vs \<Rightarrow> format ''select :id, :x'' vs False) = Inr ''select 7, :x''"
    by (simp add: format_def replacer_def hasOwn_def getProp_def wordchar_def Let_def escape_eval)
  show ?thesis
    using f
      query_rethrows [OF f, of "only_answers ''select 1'' []" 0
        "\<lparr>message = ''unexpected statement'', stack = ''Error: unexpected statement''\<rparr>" 1 "[]" "[]"]
      query_rethrows [OF f, of "only_answers ''select 7, :x'' [[(''n'', Num 7)]]" 0
        "\<lparr>message = [], stack = []\<rparr>" 1 "[[(''n'', Num 7)]]" "[]"]
    by (simp add: only_answers_def)
qed

subsection \<open>\<^verbatim>\<open>updateRows\<close>\<close>

lemma example_loop:
  "updateRows_loop
     [Obj [(''id'', Num 1), (''name'', Str ''a'')], Obj [(''id'', Num 2), (''name'', Str ''b'')]]
     ([], [])
   = Inr ([(''name'', ['' WHEN  `id` = 1 THEN ? '', '' WHEN  `id` = 2 THEN ? ''],
            [Str ''a'', Str ''b''])],
          [(''id'', [Num 1, Num 2])])"
  by code_simp

lemma example_where:
  "op_where (Obj [(''id'', Arr [Num 1, Num 2])]) = Inr '' WHERE `id` IN (1, 2)''"
  by (simp add: op_where_object where_fragment_spec_def escape_eval)

text \<open>
  Claim C2. For \<^verbatim>\<open>updateRows(table, [{id:1,name:'a'},{id:2,name:'b'}])\<close> the delegate is
  handed one statement: \<^verbatim>\<open>UPDATE\<close> of the escaped table, one \<^verbatim>\<open>CASE\<close> for the column
  \<^verbatim>\<open>name\<close> with the two \<^verbatim>\<open>WHEN\<close> branches in the order of the batch and \<^verbatim>\<open>ELSE `name`\<close>,
  and one trailing \<^verbatim>\<open>WHERE\<close> over the distinct ids. The text is given byte for byte; for
  the table \<^verbatim>\<open>t\<close> it is, word for word, the statement
  \<^verbatim>\<open>UPDATE `t` SET `name` = CASE WHEN `id` = 1 THEN 'a' WHEN `id` = 2 THEN 'b' ELSE `name` END WHERE `id` IN (1, 2)\<close>,
  with more blanks between some of the words.
\<close>

theorem updateRows_example:
  "updateRows_sql table
     (Arr [Obj [(''id'', Num 1), (''name'', Str ''a'')], Obj [(''id'', Num 2), (''name'', Str ''b'')]])
   = Inr (''UPDATE '' @ escapeId table False
          @ '' SET  `name` = CASE  WHEN  `id` = 1 THEN 'a'   WHEN  `id` = 2 THEN 'b'  ELSE `name` END  WHERE `id` IN (1, 2)'')
   \<and> updateRows d table
     (Arr [Obj [(''id'', Num 1), (''name'', Str ''a'')], Obj [(''id'', Num 2), (''name'', Str ''b'')]]) s
   = query d (''UPDATE '' @ escapeId table False
          @ '' SET  `name` = CASE  WHEN  `id` = 1 THEN 'a'   WHEN  `id` = 2 THEN 'b'  ELSE `name` END  WHERE `id` IN (1, 2)'')
       None s
   \<and> sql_words (''UPDATE '' @ escapeId (Str ''t'') False
          @ '' SET  `name` = CASE  WHEN  `id` = 1 THEN 'a'   WHEN  `id` = 2 THEN 'b'  ELSE `name` END  WHERE `id` IN (1, 2)'')
     = sql_words ''UPDATE `t` SET `name` = CASE WHEN `id` = 1 THEN 'a' WHEN `id` = 2 THEN 'b' ELSE `name` END WHERE `id` IN (1, 2)''"
proof -
  have "updateRows_sql table
     (Arr [Obj [(''id'', Num 1), (''name'', Str ''a'')], Obj [(''id'', Num 2), (''name'', Str ''b'')]])
   = Inr (''UPDATE '' @ escapeId table False
          @ '' SET  `name` = CASE  WHEN  `id` = 1 THEN 'a'   WHEN  `id` = 2 THEN 'b'  ELSE `name` END  WHERE `id` IN (1, 2)'')"
    by (simp add: updateRows_sql_def example_loop example_where Let_def escape_eval
        del: updateRows_loop.simps)
  moreover have "sql_words (''UPDATE '' @ escapeId (Str ''t'') False
          @ '' SET  `name` = CASE  WHEN  `id` = 1 THEN 'a'   WHEN  `id` = 2 THEN 'b'  ELSE `name` END  WHERE `id` IN (1, 2)'')
     = sql_words ''UPDATE `t` SET `name` = CASE WHEN `id` = 1 THEN 'a' WHEN `id` = 2 THEN 'b' ELSE `name` END WHERE `id` IN (1, 2)''"
    by (simp add: sql_words_def escape_eval)
  ultimately show ?thesis
    by (simp add: updateRows_def)
qed

subsection \<open>\<^verbatim>\<open>update\<close>\<close>

lemma or_empty_Some [simp]: "or_empty (Some options) = options"
  by (simp add: or_empty_def)

lemma or_empty_None [simp]: "or_empty None = no_options"
  by (simp add: or_empty_def)

lemma update_columns_object:
  "update_columns (Obj kvs) options
   = Inr (if truthy (opt_columns options) then options
          else options\<lparr>opt_columns := Arr (map (\<lambda>(k, v). Str k) kvs)\<rparr>)"
  by (simp add: update_columns_def)

lemma update_where_object:
  "update_where (Obj kvs) options
   = (if truthy (opt_where options) then Inr options
      else if hasOwn kvs ''id'' then Inr (options\<lparr>opt_where := Obj [(''id'', getProp kvs ''id'')]\<rparr>)
      else Inl (Error ''Can not auto detect update condition, please set options.where, or make sure obj.id exists''))"
  by (simp add: update_where_def)

text \<open>The body of \<^verbatim>\<open>update\<close> on a row object without a condition in the options.\<close>

lemma update_body_default_where:
  assumes "\<not> truthy (opt_where (or_empty options))"
  shows "(\<not> hasOwn kvs ''id'' \<longrightarrow>
            (\<exists>opts. update d table (Obj kvs) options s
               = (Inl (Error ''Can not auto detect update condition, please set options.where, or make sure obj.id exists''), s, opts)))
         \<and> (hasOwn kvs ''id'' \<longrightarrow>
              update d table (Obj kvs) options s
              = update d table (Obj kvs)
                  (Some ((or_empty options)\<lparr>opt_where := Obj [(''id'', getProp kvs ''id'')]\<rparr>)) s)"
proof -
  have swap: "r\<lparr>opt_where := a, opt_columns := b\<rparr> = r\<lparr>opt_columns := b, opt_where := a\<rparr>"
    for r :: options and a b
    by (cases r) simp
  show ?thesis
    using assms
    by (simp add: update_def update_columns_object update_where_object Let_def swap)
qed

lemma update_example_sql:
  "update_sql (Str ''t'') (Obj [(''id'', Num 7), (''name'', Str ''x'')])
     (no_options\<lparr>opt_columns := Arr [Str ''id'', Str ''name''], opt_where := Obj [(''id'', Num 7)]\<rparr>)
   = Inr ''UPDATE `t` SET `id` = 7, `name` = 'x' WHERE `id` = 7''"
  by (simp add: update_sql_def no_options_def getProp_def op_where_object where_fragment_spec_def
      Let_def escape_eval)

text \<open>
  Claim C3, as the code has it. For every call \<^verbatim>\<open>update(table, row, options)\<close> on a row
  object: when \<^verbatim>\<open>options.where\<close> is absent and the row has no \<^verbatim>\<open>id\<close>, the call returns a
  promise that is rejected with the configuration error, and the delegate is not called
  (its state is the one before the call); nothing is thrown to the caller, since the
  method is \<^verbatim>\<open>async\<close>. When \<^verbatim>\<open>options.where\<close> is absent and the row has an \<^verbatim>\<open>id\<close>, the
  call does what the call with \<^verbatim>\<open>where: {id: row.id}\<close> does.
\<close>

theorem update_call_default_where:
  assumes "\<not> truthy (opt_where (or_empty options))"
  shows "(\<not> hasOwn kvs ''id'' \<longrightarrow>
            (\<exists>opts. update_call d table (Obj kvs) options s
               = (Returned (Inl (Error ''Can not auto detect update condition, please set options.where, or make sure obj.id exists'')), s, opts)))
         \<and> (hasOwn kvs ''id'' \<longrightarrow>
              update d table (Obj kvs) options s
              = update d table (Obj kvs)
                  (Some ((or_empty options)\<lparr>opt_where := Obj [(''id'', getProp kvs ''id'')]\<rparr>)) s
              \<and> update_call d table (Obj kvs) options s
              = update_call d table (Obj kvs)
                  (Some ((or_empty options)\<lparr>opt_where := Obj [(''id'', getProp kvs ''id'')]\<rparr>)) s)"
proof -
  have "\<exists>opts. update_call d table (Obj kvs) options s
         = (Returned (Inl (Error ''Can not auto detect update condition, please set options.where, or make sure obj.id exists'')), s, opts)"
    if "\<not> hasOwn kvs ''id''"
  proof -
    obtain opts where "update d table (Obj kvs) options s
         = (Inl (Error ''Can not auto detect update condition, please set options.where, or make sure obj.id exists''), s, opts)"
      using update_body_default_where [OF assms, of kvs d table s] \<open>\<not> hasOwn kvs ''id''\<close> by blast
    then show ?thesis
      by (simp add: update_call_def async_def)
  qed
  then show ?thesis
    using update_body_default_where [OF assms, of kvs d table s]
    by (simp add: update_call_def)
qed

theorem update_call_default_where_witness:
  "\<not> truthy (opt_where (or_empty None))
   \<and> \<not> hasOwn [(''name'', Str ''x'')] ''id''
   \<and> (\<exists>opts. update_call (only_answers [] []) (Str ''t'') (Obj [(''name'', Str ''x'')]) None 0
         = (Returned (Inl (Error ''Can not auto detect update condition, please set options.where, or make sure obj.id exists'')), 0, opts))
   \<and> hasOwn [(''id'', Num 7), (''name'', Str ''x'')] ''id''
   \<and> update_call (only_answers ''UPDATE `t` SET `id` = 7, `name` = 'x' WHERE `id` = 7'' []) (Str ''t'')
        (Obj [(''id'', Num 7), (''name'', Str ''x'')]) None 0
      = (Returned (Inr []), 1,
         no_options\<lparr>opt_columns := Arr [Str ''id'', Str ''name''], opt_where := Obj [(''id'', Num 7)]\<rparr>)"
proof -
  have a: "\<not> truthy (opt_where (or_empty None))"
    by (simp add: no_options_def)
  have b: "update_call (only_answers ''UPDATE `t` SET `id` = 7, `name` = 'x' WHERE `id` = 7'' []) (Str ''t'')
        (Obj [(''id'', Num 7), (''name'', Str ''x'')])
        (Some ((or_empty None)\<lparr>opt_where := Obj [(''id'', getProp [(''id'', Num 7), (''name'', Str ''x'')] ''id'')]\<rparr>)) 0
      = (Returned (Inr []), 1,
         no_options\<lparr>opt_columns := Arr [Str ''id'', Str ''name''], opt_where := Obj [(''id'', Num 7)]\<rparr>)"
    using update_example_sql
    by (simp add: update_call_def async_def update_def update_columns_object update_where_object
        no_options_def getProp_def query_def only_answers_def)
  show ?thesis
    using a b
      update_call_default_where [OF a, of "[(''name'', Str ''x'')]" "only_answers [] []" "Str ''t''" 0]
      update_call_default_where [OF a, of "[(''id'', Num 7), (''name'', Str ''x'')]"
        "only_answers ''UPDATE `t` SET `id` = 7, `name` = 'x' WHERE `id` = 7'' []" "Str ''t''" 0]
    by (simp add: hasOwn_def)
qed

text \<open>\<^verbatim>\<open>update\<close> does not throw synchronously: for \<^verbatim>\<open>update('t', {name: 'x'})\<close> the caller
  gets a promise, rejected with the configuration error, and no exception.\<close>

theorem update_not_thrown_counterexample:
  "update_call (only_answers [] []) (Str ''t'') (Obj [(''name'', Str ''x'')]) None 0
     = (Returned (Inl (Error ''Can not auto detect update condition, please set options.where, or make sure obj.id exists'')),
        0, no_options\<lparr>opt_columns := Arr [Str ''name'']\<rparr>)
   \<and> fst (update_call (only_answers [] []) (Str ''t'') (Obj [(''name'', Str ''x'')]) None 0)
     \<noteq> Thrown (Error ''Can not auto detect update condition, please set options.where, or make sure obj.id exists'')"
  by (simp add: update_call_def async_def update_def update_columns_object update_where_object
      no_options_def hasOwn_def)

subsection \<open>The options object after a call\<close>

lemma insert_columns_object:
  "\<not> truthy (opt_columns options) \<Longrightarrow>
   insert_columns (Obj kvs) options = Inr (options\<lparr>opt_columns := Arr (map (\<lambda>(k, v). Str k) kvs)\<rparr>)"
  by (simp add: insert_columns_def)

lemma insert_columns_array:
  "\<not> truthy (opt_columns options) \<Longrightarrow>
   insert_columns (Arr (Obj kvs # rows)) options
   = Inr (options\<lparr>opt_columns := Arr (map (\<lambda>(k, v). Str k) kvs)\<rparr>)"
  by (simp add: insert_columns_def)

text \<open>
  Claim C9. \<^verbatim>\<open>get\<close>, \<^verbatim>\<open>insert\<close> and \<^verbatim>\<open>update\<close> write into the options object the caller
  passes. After \<^verbatim>\<open>get(table, where, options)\<close> the object holds \<^verbatim>\<open>where\<close>, \<^verbatim>\<open>limit = 1\<close>
  and \<^verbatim>\<open>offset = 0\<close>; after \<^verbatim>\<open>insert\<close> without columns it holds the keys of the first
  row as \<^verbatim>\<open>columns\<close>; after \<^verbatim>\<open>update\<close> without columns and condition, of a row with an
  \<^verbatim>\<open>id\<close>, it holds the keys of the row as \<^verbatim>\<open>columns\<close> and \<^verbatim>\<open>{id: row.id}\<close> as \<^verbatim>\<open>where\<close>.
\<close>

theorem options_written:
  "snd (snd (get d table w (Some options) s))
     = options\<lparr>opt_where := w, opt_limit := Num 1, opt_offset := Num 0\<rparr>
   \<and> (\<not> truthy (opt_columns options) \<longrightarrow>
        snd (snd (insert_rows d table (Obj kvs) (Some options) s))
          = options\<lparr>opt_columns := Arr (map (\<lambda>(k, v). Str k) kvs)\<rparr>
        \<and> snd (snd (insert_rows d table (Arr (Obj kvs # rows)) (Some options) s))
          = options\<lparr>opt_columns := Arr (map (\<lambda>(k, v). Str k) kvs)\<rparr>)
   \<and> (\<not> truthy (opt_columns options) \<and> \<not> truthy (opt_where options) \<and> hasOwn kvs ''id'' \<longrightarrow>
        snd (snd (update d table (Obj kvs) (Some options) s))
          = options\<lparr>opt_columns := Arr (map (\<lambda>(k, v). Str k) kvs),
                      opt_where := Obj [(''id'', getProp kvs ''id'')]\<rparr>)"
  by (simp add: get_def get_options_def insert_rows_def insert_columns_object
      insert_columns_array update_def update_columns_object update_where_object Let_def
      split: prod.splits sum.splits)

theorem options_written_witness:
  "snd (snd (get (only_answers [] []) (Str ''t'') (Obj [(''id'', Num 1)]) (Some no_options) 0))
     = no_options\<lparr>opt_where := Obj [(''id'', Num 1)], opt_limit := Num 1, opt_offset := Num 0\<rparr>
   \<and> snd (snd (get (only_answers [] []) (Str ''t'') (Obj [(''id'', Num 1)]) (Some no_options) 0))
     \<noteq> no_options
   \<and> \<not> truthy (opt_columns no_options) \<and> \<not> truthy (opt_where no_options)
   \<and> hasOwn [(''id'', Num 7), (''name'', Str ''x'')] ''id''
   \<and> snd (snd (insert_rows (only_answers [] []) (Str ''t'')
          (Obj [(''id'', Num 7), (''name'', Str ''x'')]) (Some no_options) 0))
     = no_options\<lparr>opt_columns := Arr [Str ''id'', Str ''name'']\<rparr>
   \<and> snd (snd (insert_rows (only_answers [] []) (Str ''t'')
          (Arr [Obj [(''id'', Num 7), (''name'', Str ''x'')], Obj [(''id'', Num 8)]]) (Some no_options) 0))
     = no_options\<lparr>opt_columns := Arr [Str ''id'', Str ''name'']\<rparr>
   \<and> snd (snd (update (only_answers [] []) (Str ''t'')
          (Obj [(''id'', Num 7), (''name'', Str ''x'')]) (Some no_options) 0))
     = no_options\<lparr>opt_columns := Arr [Str ''id'', Str ''name''], opt_where := Obj [(''id'', Num 7)]\<rparr>"
  using options_written [of "only_answers [] []" "Str ''t''" "Obj [(''id'', Num 1)]" no_options 0
      "[(''id'', Num 7), (''name'', Str ''x'')]" "[Obj [(''id'', Num 8)]]"]
  by (simp add: no_options_def hasOwn_def getProp_def)

subsection \<open>Failures before the delegate is called\<close>

lemma normalize_option_lacking:
  "lacks_condition option \<Longrightarrow> \<exists>err. normalize_option option = Inl err"
  by (cases option) auto

lemma updateRows_loop_lacking:
  "option \<in> set entries \<Longrightarrow> lacks_condition option \<Longrightarrow>
   \<exists>err. updateRows_loop entries acc = Inl err"
proof (induction entries arbitrary: acc)
  case Nil
  then show ?case by simp
next
  case (Cons x entries)
  show ?case
  proof (cases "updateRows_option x acc")
    case (Inl err)
    then show ?thesis by simp
  next
    case (Inr acc')
    have "x \<noteq> option"
      using Inr normalize_option_lacking [OF Cons.prems(2)]
      by (auto simp: updateRows_option_def)
    then show ?thesis
      using Cons Inr by simp
  qed
qed

lemma locks_loop_invalid_head:
  "\<not> valid_lock t \<Longrightarrow> \<exists>err. locks_loop (t # rest) i sql = Inl err"
  by (cases "lockType t") (auto simp: valid_lock_def)

lemma locks_loop_invalid:
  "t \<in> set ts \<Longrightarrow> \<not> valid_lock t \<Longrightarrow> \<exists>err. locks_loop ts i sql = Inl err"
proof (induction ts arbitrary: i sql)
  case Nil
  then show ?case by simp
next
  case (Cons x ts)
  show ?case
  proof (cases "valid_lock x")
    case True
    then have "x \<noteq> t" using Cons.prems by auto
    then show ?thesis
      using Cons True by (simp add: valid_lock_step del: locks_loop.simps)
  next
    case False
    then show ?thesis by (rule locks_loop_invalid_head)
  qed
qed

text \<open>The bodies of \<^verbatim>\<open>update\<close>, \<^verbatim>\<open>updateRows\<close> and \<^verbatim>\<open>locks\<close> on the inputs that the
  specification lists as configuration errors (section 7).\<close>

lemma failures_before_delegate:
  "(\<not> truthy (opt_where (or_empty options)) \<and> \<not> hasOwn kvs ''id'' \<longrightarrow>
      (\<exists>opts. update d table (Obj kvs) options s
         = (Inl (Error ''Can not auto detect update condition, please set options.where, or make sure obj.id exists''), s, opts)))
   \<and> (\<not> isArray batch \<longrightarrow>
        updateRows d table batch s = (Inl (Error ''Options should be array''), s))
   \<and> (option \<in> set entries \<and> lacks_condition option \<longrightarrow>
        (\<exists>err. updateRows d table (Arr entries) s = (Inl err, s)))
   \<and> locks d [] s = (Inl (Error ''Cannot lock empty tables.''), s)
   \<and> (t \<in> set ts \<and> \<not> valid_lock t \<longrightarrow> (\<exists>err. locks d ts s = (Inl err, s)))"
proof -
  have a: "\<exists>opts. update d table (Obj kvs) options s
         = (Inl (Error ''Can not auto detect update condition, please set options.where, or make sure obj.id exists''), s, opts)"
    if "\<not> truthy (opt_where (or_empty options))" and "\<not> hasOwn kvs ''id''"
    using that by (simp add: update_def update_columns_object update_where_object Let_def)
  have b: "updateRows d table batch s = (Inl (Error ''Options should be array''), s)"
    if "\<not> isArray batch"
    using that by (cases batch) (simp_all add: updateRows_def updateRows_sql_def)
  have c: "\<exists>err. updateRows d table (Arr entries) s = (Inl err, s)"
    if lacking: "option \<in> set entries" "lacks_condition option"
  proof -
    obtain err where "updateRows_loop entries ([], []) = Inl err"
      using updateRows_loop_lacking [OF lacking] by blast
    then show ?thesis
      by (simp add: updateRows_def updateRows_sql_def)
  qed
  have e: "\<exists>err. locks d ts s = (Inl err, s)" if invalid: "t \<in> set ts" "\<not> valid_lock t"
  proof -
    obtain err where "locks_loop ts 0 ''LOCK TABLES '' = Inl err"
      using locks_loop_invalid [OF invalid] by blast
    moreover have "ts \<noteq> []" using invalid by auto
    ultimately show ?thesis
      by (simp add: locks_def private_locks_def)
  qed
  show ?thesis
    using a b c e by (simp add: locks_def private_locks_def)
qed

text \<open>
  Claim C5, as the code has it. Configuration errors never reach the delegate.
  \<^verbatim>\<open>update\<close> of a row without \<^verbatim>\<open>id\<close> and without a condition; \<^verbatim>\<open>updateRows\<close> of something
  that is no array, or of a batch with an entry that has neither an \<^verbatim>\<open>id\<close> nor a row and
  a condition; \<^verbatim>\<open>locks\<close> of the empty list, or of a list with a request that has no table
  name, no lock type, or a lock type that is not one of the four in any case: each of
  these calls returns a promise that is rejected, and the state of the delegate is the
  one before the call, whatever the delegate is. Nothing is thrown to the caller, since
  the three methods are \<^verbatim>\<open>async\<close>.
\<close>

theorem configuration_errors_rejected_before_delegate:
  "(\<not> truthy (opt_where (or_empty options)) \<and> \<not> hasOwn kvs ''id'' \<longrightarrow>
      (\<exists>opts. update_call d table (Obj kvs) options s
         = (Returned (Inl (Error ''Can not auto detect update condition, please set options.where, or make sure obj.id exists'')), s, opts)))
   \<and> (\<not> isArray batch \<longrightarrow>
        updateRows_call d table batch s = (Returned (Inl (Error ''Options should be array'')), s))
   \<and> (option \<in> set entries \<and> lacks_condition option \<longrightarrow>
        (\<exists>err. updateRows_call d table (Arr entries) s = (Returned (Inl err), s)))
   \<and> locks_call d [] s = (Returned (Inl (Error ''Cannot lock empty tables.'')), s)
   \<and> (t \<in> set ts \<and> \<not> valid_lock t \<longrightarrow> (\<exists>err. locks_call d ts s = (Returned (Inl err), s)))"
proof -
  have a: "\<exists>opts. update_call d table (Obj kvs) options s
         = (Returned (Inl (Error ''Can not auto detect update condition, please set options.where, or make sure obj.id exists'')), s, opts)"
    if h: "\<not> truthy (opt_where (or_empty options))" "\<not> hasOwn kvs ''id''"
  proof -
    obtain opts where "update d table (Obj kvs) options s
         = (Inl (Error ''Can not auto detect update condition, please set options.where, or make sure obj.id exists''), s, opts)"
      using failures_before_delegate [of options kvs d table s] h by blast
    then show ?thesis
      by (simp add: update_call_def async_def)
  qed
  have c: "\<exists>err. updateRows_call d table (Arr entries) s = (Returned (Inl err), s)"
    if h: "option \<in> set entries" "lacks_condition option"
  proof -
    obtain err where "updateRows d table (Arr entries) s = (Inl err, s)"
      using failures_before_delegate [of _ _ d table s _ option entries] h by blast
    then show ?thesis
      by (simp add: updateRows_call_def async_def)
  qed
  have e: "\<exists>err. locks_call d ts s = (Returned (Inl err), s)"
    if h: "t \<in> set ts" "\<not> valid_lock t"
  proof -
    obtain err where "locks d ts s = (Inl err, s)"
      using failures_before_delegate [of _ _ d _ s _ _ _ t ts] h by blast
    then show ?thesis
      by (simp add: locks_call_def async_def)
  qed
  show ?thesis
    using a c e failures_before_delegate [of options kvs d table s batch]
    by (simp add: updateRows_call_def locks_call_def async_def)
qed

theorem configuration_errors_rejected_before_delegate_witness:
  "\<not> truthy (opt_where (or_empty None)) \<and> \<not> hasOwn [(''name'', Str ''x'')] ''id''
   \<and> (\<exists>opts. update_call (logged (only_answers [] [])) (Str ''t'') (Obj [(''name'', Str ''x'')]) None (0, [])
         = (Returned (Inl (Error ''Can not auto detect update condition, please set options.where, or make sure obj.id exists'')), (0, []), opts))
   \<and> \<not> isArray (Obj [(''id'', Num 1)])
   \<and> updateRows_call (logged (only_answers [] [])) (Str ''t'') (Obj [(''id'', Num 1)]) (0, [])
       = (Returned (Inl (Error ''Options should be array'')), (0, []))
   \<and> Obj [(''row'', Obj [(''name'', Str ''b'')])]
       \<in> set [Obj [(''id'', Num 1), (''name'', Str ''a'')], Obj [(''row'', Obj [(''name'', Str ''b'')])]]
   \<and> lacks_condition (Obj [(''row'', Obj [(''name'', Str ''b'')])])
   \<and> (\<exists>err. updateRows_call (logged (only_answers [] [])) (Str ''t'')
          (Arr [Obj [(''id'', Num 1), (''name'', Str ''a'')], Obj [(''row'', Obj [(''name'', Str ''b'')])]])
          (0, []) = (Returned (Inl err), (0, [])))
   \<and> locks_call (logged (only_answers [] [])) [] (0, [])
       = (Returned (Inl (Error ''Cannot lock empty tables.'')), (0, []))
   \<and> \<lparr>tableName = Str ''u'', lockType = Str ''bogus'', tableAlias = Undefined\<rparr>
       \<in> set [\<lparr>tableName = Str ''t'', lockType = Str ''READ'', tableAlias = Undefined\<rparr>,
              \<lparr>tableName = Str ''u'', lockType = Str ''bogus'', tableAlias = Undefined\<rparr>]
   \<and> \<not> valid_lock \<lparr>tableName = Str ''u'', lockType = Str ''bogus'', tableAlias = Undefined\<rparr>
   \<and> (\<exists>err. locks_call (logged (only_answers [] []))
          [\<lparr>tableName = Str ''t'', lockType = Str ''READ'', tableAlias = Undefined\<rparr>,
           \<lparr>tableName = Str ''u'', lockType = Str ''bogus'', tableAlias = Undefined\<rparr>] (0, [])
        = (Returned (Inl err), (0, [])))"
proof -
  have h1: "\<not> truthy (opt_where (or_empty None)) \<and> \<not> hasOwn [(''name'', Str ''x'')] ''id''"
    by (simp add: no_options_def hasOwn_def)
  have h2: "\<not> isArray (Obj [(''id'', Num 1)])"
    by simp
  have h3: "Obj [(''row'', Obj [(''name'', Str ''b'')])]
       \<in> set [Obj [(''id'', Num 1), (''name'', Str ''a'')], Obj [(''row'', Obj [(''name'', Str ''b'')])]]
     \<and> lacks_condition (Obj [(''row'', Obj [(''name'', Str ''b'')])])"
    by (simp add: hasOwn_def getProp_def)
  have h4: "\<lparr>tableName = Str ''u'', lockType = Str ''bogus'', tableAlias = Undefined\<rparr>
       \<in> set [\<lparr>tableName = Str ''t'', lockType = Str ''READ'', tableAlias = Undefined\<rparr>,
              \<lparr>tableName = Str ''u'', lockType = Str ''bogus'', tableAlias = Undefined\<rparr>]
     \<and> \<not> valid_lock \<lparr>tableName = Str ''u'', lockType = Str ''bogus'', tableAlias = Undefined\<rparr>"
    by (simp add: valid_lock_def lock_types_def upper_eval)
  show ?thesis
    using h1 h2 h3 h4
      configuration_errors_rejected_before_delegate
        [of None "[(''name'', Str ''x'')]" "logged (only_answers [] [])" "Str ''t''" "(0, [])"
          "Obj [(''id'', Num 1)]" "Obj [(''row'', Obj [(''name'', Str ''b'')])]"
          "[Obj [(''id'', Num 1), (''name'', Str ''a'')], Obj [(''row'', Obj [(''name'', Str ''b'')])]]"
          "\<lparr>tableName = Str ''u'', lockType = Str ''bogus'', tableAlias = Undefined\<rparr>"
          "[\<lparr>tableName = Str ''t'', lockType = Str ''READ'', tableAlias = Undefined\<rparr>,
            \<lparr>tableName = Str ''u'', lockType = Str ''bogus'', tableAlias = Undefined\<rparr>]"]
    by blast
qed

text \<open>\<^verbatim>\<open>locks\<close> does not throw synchronously: \<^verbatim>\<open>#locks([])\<close> itself throws, but for
  \<^verbatim>\<open>locks([])\<close> the caller gets a promise, rejected with the configuration error, and no
  exception; the delegate's log stays empty.\<close>

theorem locks_not_thrown_counterexample:
  "private_locks_call [] = Thrown (Error ''Cannot lock empty tables.'')
   \<and> locks_call (logged (only_answers [] [])) [] (0, [])
     = (Returned (Inl (Error ''Cannot lock empty tables.'')), 0, [])
   \<and> fst (locks_call (logged (only_answers [] [])) [] (0, []))
     \<noteq> Thrown (Error ''Cannot lock empty tables.'')"
  by (simp add: private_locks_call_def sync_def locks_call_def async_def locks_def private_locks_def)

subsection \<open>Named placeholders\<close>

lemma format_object [simp]: "format sql (Obj kvs) b = replace_named sql kvs"
  by (simp add: format_def)

lemma not_wordchar_colon [simp]: "\<not> wordchar (CHR '':'')"
  by (simp add: wordchar_def)

lemma takeWhile_before_colon:
  "takeWhile wordchar (p @ CHR '':'' # s) = takeWhile wordchar p"
  by (induction p) simp_all

lemma dropWhile_before_colon:
  "dropWhile wordchar (p @ CHR '':'' # s) = dropWhile wordchar p @ CHR '':'' # s"
  by (induction p) simp_all

lemma andThen_assoc:
  "andThen (andThen r f) g = andThen r (\<lambda>x. andThen (f x) g)"
  by (cases r) simp_all

lemma replace_named_append:
  "replace_named (pre @ CHR '':'' # s) kvs
   = andThen (replace_named pre kvs) (\<lambda>a.
     andThen (replace_named (CHR '':'' # s) kvs) (\<lambda>b. Inr (a @ b)))"
proof (induction pre kvs rule: replace_named.induct)
  case (1 kvs)
  show ?case
    by (cases "replace_named (CHR '':'' # s) kvs") simp_all
next
  case (2 c p kvs)
  show ?case
  proof (cases "c = CHR '':'' \<and> takeWhile wordchar p \<noteq> []")
    case True
    then show ?thesis
      using "2.IH"(1) [OF refl True]
      by (simp add: takeWhile_before_colon dropWhile_before_colon andThen_assoc
          del: replace_named.simps(2))
        (simp add: takeWhile_before_colon dropWhile_before_colon andThen_assoc Let_def)
  next
    case False
    then show ?thesis
      using "2.IH"(2) [OF refl False]
      by (auto simp: takeWhile_before_colon andThen_assoc Let_def)
  qed
qed

lemma replace_named_placeholder:
  assumes "key \<noteq> []" and "list_all wordchar key" and "rest = [] \<or> \<not> wordchar (hd rest)"
  shows "replace_named (CHR '':'' # key @ rest) kvs
         = andThen (replacer kvs (CHR '':'' # key) key) (\<lambda>r.
           andThen (replace_named rest kvs) (\<lambda>t. Inr (r @ t)))"
proof -
  have "takeWhile wordchar (key @ rest) = key"
    using assms(2,3) by (cases rest) (auto simp: list_all_iff)
  moreover have "dropWhile wordchar (key @ rest) = rest"
    using assms(2,3) by (cases rest) (auto simp: list_all_iff)
  ultimately show ?thesis
    using assms(1) by (simp add: Let_def)
qed

lemma replace_named_total:
  "\<not> hasOwn kvs ''hasOwnProperty'' \<Longrightarrow> \<exists>t. replace_named s kvs = Inr t"
proof (induction s kvs rule: replace_named.induct)
  case (1 kvs)
  then show ?case by simp
next
  case (2 c p kvs)
  show ?case
  proof (cases "c = CHR '':'' \<and> takeWhile wordchar p \<noteq> []")
    case True
    then show ?thesis
      using "2.IH"(1) [OF refl True] "2.prems"
      by (auto simp: Let_def replacer_def)
  next
    case False
    then show ?thesis
      using "2.IH"(2) [OF refl False] "2.prems"
      by (auto simp: Let_def)
  qed
qed

text \<open>
  Named mode, for a values object that has no property called \<^verbatim>\<open>hasOwnProperty\<close> of its
  own: wherever \<^verbatim>\<open>:key\<close> stands in the template, with \<open>key\<close> the whole run of word
  characters after the colon, the result has the escaped value of \<^verbatim>\<open>values[key]\<close> when
  \<open>key\<close> is an own property of the values and the text \<^verbatim>\<open>:key\<close> when it is not, between
  the results for the text before and the text after; no error is raised.
\<close>

theorem format_named_occurrence:
  assumes "\<not> hasOwn kvs ''hasOwnProperty''"
    and "key \<noteq> []" and "list_all wordchar key" and "rest = [] \<or> \<not> wordchar (hd rest)"
  shows "\<exists>a b. format pre (Obj kvs) stringifyObjects = Inr a
           \<and> format rest (Obj kvs) stringifyObjects = Inr b
           \<and> format (pre @ CHR '':'' # key @ rest) (Obj kvs) stringifyObjects
               = Inr (a @ (if hasOwn kvs key then escape (getProp kvs key) False
                           else CHR '':'' # key) @ b)"
proof -
  obtain a where a: "replace_named pre kvs = Inr a"
    using replace_named_total [OF assms(1)] by blast
  obtain b where b: "replace_named rest kvs = Inr b"
    using replace_named_total [OF assms(1)] by blast
  show ?thesis
    using a b assms(1)
    by (simp add: replace_named_append replace_named_placeholder [OF assms(2,3,4)] replacer_def
        del: replace_named.simps)
qed

theorem format_named_occurrence_witness:
  "\<not> hasOwn [(''id'', Num 7)] ''hasOwnProperty''
   \<and> ''id'' \<noteq> [] \<and> list_all wordchar ''id'' \<and> \<not> wordchar (hd '' and b = :x'')
   \<and> ''x'' \<noteq> [] \<and> list_all wordchar ''x''
   \<and> format ''a = :id and b = :x'' (Obj [(''id'', Num 7)]) False = Inr ''a = 7 and b = :x''"
proof -
  have h: "\<not> hasOwn [(''id'', Num 7)] ''hasOwnProperty''"
    by (simp add: hasOwn_def)
  have w: "list_all wordchar ''id''" "\<not> wordchar (hd '' and b = :x'')" "list_all wordchar ''x''"
    by (simp_all add: wordchar_def)
  have plain: "format ''a = '' (Obj [(''id'', Num 7)]) False = Inr ''a = ''"
    "format '' and b = '' (Obj [(''id'', Num 7)]) False = Inr '' and b = ''"
    "format [] (Obj [(''id'', Num 7)]) False = Inr []"
    by (simp_all add: wordchar_def Let_def)
  show ?thesis
    using h w plain
      format_named_occurrence [OF h, of "''id''" "'' and b = :x''" "''a = ''" False]
      format_named_occurrence [OF h, of "''x''" "[]" "'' and b = ''" False]
    by (auto simp: hasOwn_def getProp_def escape_eval simp del: format_object)
qed

text \<open>
  Claim C4 says that in named mode every \<^verbatim>\<open>:identifier\<close> whose key the values do not
  have is left as it is, for every values object that is no array and not null, and that
  \<^verbatim>\<open>format("select :a", {})\<close> returns \<^verbatim>\<open>select :a\<close>. The latter holds. The code asks
  \<^verbatim>\<open>values.hasOwnProperty(key)\<close>, which reads the method from \<^verbatim>\<open>values\<close> itself: for
  \<^verbatim>\<open>format(":a", {hasOwnProperty: 1})\<close> the call throws a TypeError, where the claim, and
  the comment at line 29 of the code, have \<^verbatim>\<open>:a\<close> returned.
\<close>

theorem format_named_shadowed:
  "format '':a'' (Obj [(''hasOwnProperty'', Num 1)]) False = Inl TypeError
   \<and> format ''select :a'' (Obj []) False = Inr ''select :a''"
  by (simp add: replacer_def hasOwn_def wordchar_def Let_def)

end
